theory Spec2Isabelle
  imports Complex_Main
begin

chapter \<open>The script \<open>scripts/seperateGeoJson.js\<close>\<close>

text \<open>
  The script reads a shapefile as a feature collection, fills in missing attributes,
  attaches a designation to each feature by its type code, converts the coordinates to
  WGS84 and writes one file for each designation and one for the whole collection. The
  functions below follow it line by line; what it meets outside (the shapefile reader,
  the coordinate conversion, the file system, the progress spinner) is a parameter or a
  list of the calls made.
\<close>

section \<open>JavaScript values\<close>

text \<open>
  The values that the script reads from a feature's attribute table and from the
  configuration file: the primitive values of JavaScript. A number that is not \<open>NaN\<close>
  is carried by its numeric value (the script does no arithmetic of its own; \<open>+0\<close> and
  \<open>-0\<close>, which \<open>===\<close>, \<open>includes\<close> and the truth test all treat alike, are one value).
\<close>

datatype jsval = JUndefined | JNull | JBool bool | JNum rat | JNaN | JStr string

text \<open>The truth test of \<open>||\<close>, \<open>&&\<close> and \<open>if\<close>.\<close>

fun truthy :: "jsval \<Rightarrow> bool" where
  "truthy JUndefined = False"
| "truthy JNull = False"
| "truthy (JBool b) = b"
| "truthy (JNum n) = (n \<noteq> 0)"
| "truthy JNaN = False"
| "truthy (JStr s) = (s \<noteq> [])"

text \<open>\<open>a || b\<close>.\<close>

definition js_or :: "jsval \<Rightarrow> jsval \<Rightarrow> jsval" where
  "js_or a b = (if truthy a then a else b)"

text \<open>\<open>a === b\<close>: \<open>NaN\<close> is not equal to itself.\<close>

definition strict_eq :: "jsval \<Rightarrow> jsval \<Rightarrow> bool" where
  "strict_eq a b = (a = b \<and> a \<noteq> JNaN)"

text \<open>\<open>xs.includes(v)\<close> compares by SameValueZero, under which \<open>NaN\<close> equals itself.\<close>

definition js_includes :: "jsval list \<Rightarrow> jsval \<Rightarrow> bool" where
  "js_includes xs v = (v \<in> set xs)"

text \<open>\<open>xs[i]\<close> on an array: \<open>undefined\<close> beyond its end.\<close>

definition js_index :: "jsval list \<Rightarrow> nat \<Rightarrow> jsval" where
  "js_index xs i = (if i < length xs then xs ! i else JUndefined)"

text \<open>
  \<open>[...new Set(xs)]\<close>: the elements of \<open>xs\<close> in the order of their first occurrence.
\<close>

definition set_add :: "'a list \<Rightarrow> 'a \<Rightarrow> 'a list" where
  "set_add s x = (if x \<in> set s then s else s @ [x])"

definition new_Set :: "'a list \<Rightarrow> 'a list" where
  "new_Set xs = foldl set_add [] xs"

section \<open>Data model\<close>

text \<open>
  An object's properties, in insertion order. Reading a missing property gives
  \<open>undefined\<close>; an assignment replaces the value of an existing key in place and
  appends a new key at the end.
\<close>

type_synonym props = "(string \<times> jsval) list"

definition get_prop :: "props \<Rightarrow> string \<Rightarrow> jsval" where
  "get_prop ps k = (case map_of ps k of None \<Rightarrow> JUndefined | Some v \<Rightarrow> v)"

fun set_prop :: "props \<Rightarrow> string \<Rightarrow> jsval \<Rightarrow> props" where
  "set_prop [] k v = [(k, v)]"
| "set_prop (p # ps) k v = (if fst p = k then (k, v) # ps else p # set_prop ps k v)"

definition has_prop :: "props \<Rightarrow> string \<Rightarrow> bool" where
  "has_prop ps k = (k \<in> fst ` set ps)"

text \<open>
  A feature has a geometry, whose coordinates are a sequence of coordinate arrays, and
  properties. The collection has its type tag, its features and its bounding box. The
  tags of features and geometries, which the script neither reads nor writes, are left
  out. A record of the shapefile without a shape, whose geometry would be \<open>null\<close>, and
  a geometry whose coordinates are nested deeper are not features of this data model.
\<close>

record geometry =
  coordinates :: "jsval list list"

record feature =
  geometry :: geometry
  properties :: props

record geojson =
  coll_type :: string
  features :: "feature list"
  bbox :: "jsval list"

text \<open>
  An entry of \<open>typesDefinitions.json\<close>, which is not among the sources: a type code,
  compared with a feature's \<open>Typ\<close>, and a designation label, which is text.
\<close>

record typeDefinition =
  type :: jsval
  designation :: string

record options =
  inputFileName :: string
  outputFileName :: string
  typesDefinitions :: "typeDefinition list option"

text \<open>The result of \<open>gk.toWGS\<close>, a function of the library \<open>gauss-krueger\<close>.\<close>

record wgs =
  longitude :: jsval
  latitude :: jsval

section \<open>The progress reporter and the outcome of a run\<close>

text \<open>
  The texts handed to the spinner, by the template each is built from and the values
  filled in, and the calls made on it. The spinner of the library \<open>ora\<close> starts, takes
  a text, warns, fails and succeeds; it has no method \<open>error\<close>, so that the call of
  line 96 throws a \<open>TypeError\<close> and emits nothing.
\<close>

datatype load_error = Error_parsing_shape_file string

datatype message =
    Reading_from string
  | Error_reading load_error
  | Valid_type_found jsval
  | Type_definition_not_found jsval
  | Unknown_type_found jsval
  | Processing_designation string
  | Successfully_wrote string
  | Error_saving string
  | Geo_data_wrote string

datatype event =
    Start
  | Text message
  | Warn message
  | Fail message
  | Succeed message

text \<open>
  An \<open>async\<close> function returns a promise: it is resolved when the body returns and
  rejected when the body throws.
\<close>

datatype exn = TypeError string | ReferenceError string

datatype outcome = Resolved | Rejected exn

record run =
  events :: "event list"
  written :: "(string \<times> geojson) list"
  outcome :: outcome

section \<open>Loading\<close>

text \<open>Lines 22 to 26: the callback that fills in \<open>LAGE\<close> and \<open>Typ\<close>.\<close>

definition cleanup :: "feature \<Rightarrow> feature" where
  "cleanup feature =
     (let f1 = feature\<lparr>properties :=
                 set_prop (properties feature) ''LAGE''
                   (js_or (get_prop (properties feature) ''LAGE'') (JStr ''UNKNOWN''))\<rparr>
      in f1\<lparr>properties :=
              set_prop (properties f1) ''Typ''
                (js_or (get_prop (properties f1) ''Typ'') (JStr ''UNKNOWN''))\<rparr>)"

text \<open>
  \<open>_getGeoJson\<close>, given what \<open>shapefile.read\<close> gave: the error it threw, or the
  collection it returned.
\<close>

definition getGeoJson :: "string + geojson \<Rightarrow> load_error + geojson" where
  "getGeoJson read_result =
     (case read_result of
        Inl err \<Rightarrow> Inl (Error_parsing_shape_file err)
      | Inr geojson \<Rightarrow> Inr (geojson\<lparr>features := map cleanup (features geojson)\<rparr>))"

section \<open>Classification\<close>

text \<open>
  Lines 81 to 100. The callback returns the feature, or, from the branch of line 90,
  what \<open>spinner.fail\<close> returns, which then takes the feature's place in the array; in
  the branch of line 96 it throws, since \<open>spinner.error\<close> is not a function.
  \<open>TYPES\<close> and \<open>typesDefinitions\<close> are the variables of the enclosing function. The
  set \<open>types\<close> of line 80 is never read and is left out.
\<close>

datatype slot = Feature feature | Spinner

definition classify ::
  "jsval list \<Rightarrow> typeDefinition list \<Rightarrow> feature \<Rightarrow> event list \<times> (exn + slot)" where
  "classify TYPES defs feature =
     (let ty = get_prop (properties feature) ''Typ'' in
      if TYPES \<noteq> [] then
        if truthy ty \<and> js_includes TYPES ty then
          (case find (\<lambda>t. strict_eq (type t) ty) defs of
             Some typeDefinition \<Rightarrow>
               ([Text (Valid_type_found ty)],
                Inr (Feature (feature\<lparr>properties :=
                   set_prop (properties feature) ''designation''
                     (JStr (designation typeDefinition))\<rparr>)))
           | None \<Rightarrow>
               ([Text (Valid_type_found ty), Fail (Type_definition_not_found ty)],
                Inr Spinner))
        else if truthy ty then
          ([Warn (Unknown_type_found ty)], Inr (Feature feature))
        else
          ([], Inl (TypeError ''spinner.error is not a function''))
      else ([], Inr (Feature feature)))"

text \<open>
  The \<open>map\<close> of line 81 calls the callback on the features in their order and ends
  where a call throws.
\<close>

fun classify_features ::
  "jsval list \<Rightarrow> typeDefinition list \<Rightarrow> feature list \<Rightarrow> event list \<times> (exn + slot list)" where
  "classify_features TYPES defs [] = ([], Inr [])"
| "classify_features TYPES defs (f # fs) =
     (case classify TYPES defs f of
        (ev, Inl e) \<Rightarrow> (ev, Inl e)
      | (ev, Inr s) \<Rightarrow>
          (case classify_features TYPES defs fs of
             (evs, Inl e) \<Rightarrow> (ev @ evs, Inl e)
           | (evs, Inr ss) \<Rightarrow> (ev @ evs, Inr (s # ss))))"

section \<open>Reprojection\<close>

text \<open>
  Lines 103 to 112. Reading \<open>geometry\<close> from what \<open>spinner.fail\<close> returned gives
  \<open>undefined\<close>, and reading \<open>coordinates\<close> from that throws.
\<close>

definition reproject_coordinates :: "(jsval \<Rightarrow> jsval \<Rightarrow> wgs) \<Rightarrow> jsval list \<Rightarrow> jsval list" where
  "reproject_coordinates toWGS c =
     (let w = toWGS (js_index c 0) (js_index c 1)
      in [longitude w, latitude w])"

definition reproject_geometry :: "(jsval \<Rightarrow> jsval \<Rightarrow> wgs) \<Rightarrow> feature \<Rightarrow> feature" where
  "reproject_geometry toWGS feature =
     feature\<lparr>geometry :=
       (geometry feature)\<lparr>coordinates :=
          map (reproject_coordinates toWGS) (coordinates (geometry feature))\<rparr>\<rparr>"

definition reproject_feature :: "(jsval \<Rightarrow> jsval \<Rightarrow> wgs) \<Rightarrow> slot \<Rightarrow> exn + feature" where
  "reproject_feature toWGS s =
     (case s of
        Spinner \<Rightarrow> Inl (TypeError ''coordinates'')
      | Feature feature \<Rightarrow> Inr (reproject_geometry toWGS feature))"

fun reproject_features :: "(jsval \<Rightarrow> jsval \<Rightarrow> wgs) \<Rightarrow> slot list \<Rightarrow> exn + feature list" where
  "reproject_features toWGS [] = Inr []"
| "reproject_features toWGS (s # ss) =
     (case reproject_feature toWGS s of
        Inl e \<Rightarrow> Inl e
      | Inr f \<Rightarrow>
          (case reproject_features toWGS ss of
             Inl e \<Rightarrow> Inl e
           | Inr fs \<Rightarrow> Inr (f # fs)))"

text \<open>Lines 113 to 118.\<close>

definition reproject_bbox :: "(jsval \<Rightarrow> jsval \<Rightarrow> wgs) \<Rightarrow> jsval list \<Rightarrow> jsval list" where
  "reproject_bbox toWGS b =
     [latitude (toWGS (js_index b 0) (js_index b 1)),
      longitude (toWGS (js_index b 0) (js_index b 1)),
      latitude (toWGS (js_index b 2) (js_index b 3)),
      longitude (toWGS (js_index b 2) (js_index b 3))]"

section \<open>Writing\<close>

text \<open>
  What \<open>JSON.parse\<close> reads back from the text that \<open>JSON.stringify\<close> wrote: a
  property whose value is \<open>undefined\<close> is gone, \<open>undefined\<close> in an array and \<open>NaN\<close>
  are \<open>null\<close>. The text of a file is represented by the collection it parses to.
\<close>

definition json_value :: "jsval \<Rightarrow> jsval" where
  "json_value v = (if v = JUndefined \<or> v = JNaN then JNull else v)"

definition json_props :: "props \<Rightarrow> props" where
  "json_props ps = map (\<lambda>p. (fst p, json_value (snd p))) (filter (\<lambda>p. snd p \<noteq> JUndefined) ps)"

definition json_feature :: "feature \<Rightarrow> feature" where
  "json_feature f =
     \<lparr>geometry = \<lparr>coordinates = map (map json_value) (coordinates (geometry f))\<rparr>,
      properties = json_props (properties f)\<rparr>"

definition stringify :: "geojson \<Rightarrow> geojson" where
  "stringify g =
     \<lparr>coll_type = coll_type g,
      features = map json_feature (features g),
      bbox = map json_value (bbox g)\<rparr>"

text \<open>
  \<open>_saveGeoJson\<close>: \<open>fs_ok\<close> tells of which paths \<open>fs.writeFile\<close> succeeds. The
  result is the list of files written so far, or the failure.
\<close>

definition saveGeoJson ::
  "(string \<Rightarrow> bool) \<Rightarrow> string \<Rightarrow> geojson \<Rightarrow> (string \<times> geojson) list
     \<Rightarrow> unit + (string \<times> geojson) list" where
  "saveGeoJson fs_ok name geojson files =
     (if fs_ok (name @ ''.geojson'')
      then Inr (files @ [(name @ ''.geojson'', stringify geojson)])
      else Inl ())"

text \<open>
  Lines 121 to 137, the loop over the designations. \<open>outputFile\<close> is declared in the
  block of \<open>try\<close>, so the \<open>catch\<close> block, which names it, throws a
  \<open>ReferenceError\<close> before \<open>spinner.fail\<close> is called. \<open>Inl\<close> is a run that ended
  in the loop, \<open>Inr\<close> one that goes on after it.
\<close>

fun write_designations ::
  "(string \<Rightarrow> bool) \<Rightarrow> string \<Rightarrow> geojson \<Rightarrow> string list \<Rightarrow> run \<Rightarrow> run + run" where
  "write_designations fs_ok name geojson [] r = Inr r"
| "write_designations fs_ok name geojson (d # ds) r =
     (let r1 = r\<lparr>events := events r @ [Text (Processing_designation d)]\<rparr>;
          fs = filter (\<lambda>f. strict_eq (get_prop (properties f) ''designation'') (JStr d))
                 (map json_feature (features geojson));
          outputFile = name @ ''_'' @ d
      in case saveGeoJson fs_ok outputFile
                \<lparr>coll_type = coll_type geojson, features = fs, bbox = bbox geojson\<rparr>
                (written r1) of
           Inr files \<Rightarrow>
             write_designations fs_ok name geojson ds
               (r1\<lparr>written := files,
                   events := events r1 @ [Text (Successfully_wrote outputFile)]\<rparr>)
         | Inl _ \<Rightarrow> Inl (r1\<lparr>outcome := Rejected (ReferenceError ''outputFile'')\<rparr>))"

section \<open>The pipeline\<close>

text \<open>
  \<open>shapeToGeojson\<close>. Its parameters besides the options are what the run meets
  outside: the function \<open>gk.toWGS\<close>, what \<open>shapefile.read\<close> gives for the input files,
  and which writes succeed.
\<close>

definition shapeToGeojson ::
  "(jsval \<Rightarrow> jsval \<Rightarrow> wgs) \<Rightarrow> string + geojson \<Rightarrow> (string \<Rightarrow> bool) \<Rightarrow> options \<Rightarrow> run" where
  "shapeToGeojson toWGS read_result fs_ok opts =
     (let defs = (case typesDefinitions opts of None \<Rightarrow> [] | Some ds \<Rightarrow> ds);
          TYPES = map type defs;
          DESIGNATIONS = new_Set (map designation defs);
          ev0 = [Start, Text (Reading_from (inputFileName opts))]
      in case getGeoJson read_result of
           Inl err \<Rightarrow>
             \<lparr>events = ev0 @ [Fail (Error_reading err)], written = [], outcome = Resolved\<rparr>
         | Inr geojson \<Rightarrow>
             (let cl = classify_features TYPES defs (features geojson);
                  ev1 = ev0 @ fst cl
              in case snd cl of
                   Inl e \<Rightarrow> \<lparr>events = ev1, written = [], outcome = Rejected e\<rparr>
                 | Inr slots \<Rightarrow>
                     (case reproject_features toWGS slots of
                        Inl e \<Rightarrow> \<lparr>events = ev1, written = [], outcome = Rejected e\<rparr>
                      | Inr fs \<Rightarrow>
                          (let geojson' = geojson\<lparr>features := fs,
                                                  bbox := reproject_bbox toWGS (bbox geojson)\<rparr>
                           in case write_designations fs_ok (outputFileName opts) geojson'
                                     DESIGNATIONS
                                     \<lparr>events = ev1, written = [], outcome = Resolved\<rparr> of
                                Inl r \<Rightarrow> r
                              | Inr r \<Rightarrow>
                                  (case saveGeoJson fs_ok (outputFileName opts) geojson'
                                          (written r) of
                                     Inr files \<Rightarrow>
                                       r\<lparr>written := files,
                                         events := events r @
                                           [Succeed (Geo_data_wrote (outputFileName opts))]\<rparr>
                                   | Inl _ \<Rightarrow>
                                       r\<lparr>events := events r @
                                           [Fail (Error_saving (outputFileName opts))]\<rparr>)))))"

section \<open>Example inputs\<close>

text \<open>
  Three features with the type codes \<open>A\<close>, \<open>B\<close> and \<open>null\<close>, the second with an empty
  \<open>LAGE\<close>, and two definitions. A second collection has a feature that was read with
  a \<open>designation\<close> of its own and a type code that no definition has.
  \<open>example_toWGS\<close> stands in for \<open>gk.toWGS\<close> where an example needs a function; the
  theorems hold for every function. Every write succeeds, or only that of the first
  designation's file.
\<close>

definition example_collection :: geojson where
  "example_collection =
     \<lparr>coll_type = ''FeatureCollection'',
      features =
        [\<lparr>geometry = \<lparr>coordinates = [[JNum 4425000, JNum 5480000]]\<rparr>,
          properties = [(''LAGE'', JStr ''Koenigstrasse''), (''Typ'', JStr ''A'')]\<rparr>,
         \<lparr>geometry = \<lparr>coordinates = [[JNum 4425100, JNum 5480100]]\<rparr>,
          properties = [(''LAGE'', JStr []), (''Typ'', JStr ''B'')]\<rparr>,
         \<lparr>geometry = \<lparr>coordinates = [[JNum 4425200, JNum 5480200]]\<rparr>,
          properties = [(''LAGE'', JStr ''Flussweg''), (''Typ'', JNull)]\<rparr>],
      bbox = [JNum 4425000, JNum 5480000, JNum 4425200, JNum 5480200]\<rparr>"

definition example_designated :: geojson where
  "example_designated =
     \<lparr>coll_type = ''FeatureCollection'',
      features =
        [\<lparr>geometry = \<lparr>coordinates = [[JNum 4425000, JNum 5480000]]\<rparr>,
          properties = [(''LAGE'', JStr ''Koenigstrasse''), (''Typ'', JStr ''A'')]\<rparr>,
         \<lparr>geometry = \<lparr>coordinates = [[JNum 4425300, JNum 5480300]]\<rparr>,
          properties = [(''LAGE'', JStr ''Uferweg''), (''Typ'', JStr ''Q''),
                        (''designation'', JStr ''W'')]\<rparr>],
      bbox = [JNum 4425000, JNum 5480000, JNum 4425300, JNum 5480300]\<rparr>"

definition example_definitions :: "typeDefinition list" where
  "example_definitions =
     [\<lparr>type = JStr ''A'', designation = ''X''\<rparr>, \<lparr>type = JStr ''B'', designation = ''Y''\<rparr>]"

definition example_options :: options where
  "example_options =
     \<lparr>inputFileName = ''in'', outputFileName = ''out'',
      typesDefinitions = Some example_definitions\<rparr>"

definition example_toWGS :: "jsval \<Rightarrow> jsval \<Rightarrow> wgs" where
  "example_toWGS x y =
     \<lparr>longitude = (case x of JNum n \<Rightarrow> JNum (n - 4424000) | _ \<Rightarrow> JNaN),
      latitude = (case y of JNum n \<Rightarrow> JNum (n - 5470000) | _ \<Rightarrow> JNaN)\<rparr>"

definition every_write_ok :: "string \<Rightarrow> bool" where
  "every_write_ok p = True"

definition only_X_write_ok :: "string \<Rightarrow> bool" where
  "only_X_write_ok p = (p = ''out_X.geojson'')"


section \<open>Values and properties\<close>

lemma truthy_not_NaN: "truthy v \<Longrightarrow> v \<noteq> JNaN"
  by (cases v) simp_all

lemma falsy_iff:
  "(\<not> truthy v) =
     (v = JUndefined \<or> v = JNull \<or> v = JBool False \<or> v = JNum 0 \<or> v = JNaN \<or> v = JStr [])"
  by (cases v) auto

lemma strict_eq_truthy: "truthy b \<Longrightarrow> strict_eq a b = (a = b)"
  by (auto simp: strict_eq_def dest: truthy_not_NaN)

lemma truthy_js_or: "truthy b \<Longrightarrow> truthy (js_or a b)"
  by (simp add: js_or_def)

lemma get_prop_set_prop:
  "get_prop (set_prop ps k v) k' = (if k' = k then v else get_prop ps k')"
  by (induction ps) (auto simp: get_prop_def)

lemma keys_set_prop: "fst ` set (set_prop ps k v) = insert k (fst ` set ps)"
  by (induction ps) auto

lemma has_prop_set_prop: "has_prop (set_prop ps k v) k' = (k' = k \<or> has_prop ps k')"
  by (auto simp: has_prop_def keys_set_prop)

lemma get_prop_absent: "\<not> has_prop ps k \<Longrightarrow> get_prop ps k = JUndefined"
  by (simp add: has_prop_def get_prop_def map_of_eq_None_iff[THEN iffD2])

section \<open>The loader\<close>

lemma cleanup_geometry: "geometry (cleanup f) = geometry f"
  by (simp add: cleanup_def Let_def)

lemma cleanup_get:
  "get_prop (properties (cleanup f)) k =
     (if k = ''LAGE'' \<or> k = ''Typ'' then js_or (get_prop (properties f) k) (JStr ''UNKNOWN'')
      else get_prop (properties f) k)"
  by (simp add: cleanup_def Let_def get_prop_set_prop)

lemma cleanup_has:
  "has_prop (properties (cleanup f)) k =
     (k = ''LAGE'' \<or> k = ''Typ'' \<or> has_prop (properties f) k)"
  by (auto simp: cleanup_def Let_def has_prop_set_prop)

lemma cleanup_Typ_truthy: "truthy (get_prop (properties (cleanup f)) ''Typ'')"
  by (simp add: cleanup_get truthy_js_or)

lemma getGeoJson_Inr:
  "getGeoJson read_result = Inr loaded \<Longrightarrow>
     \<exists>g. read_result = Inr g \<and> loaded = g\<lparr>features := map cleanup (features g)\<rparr>"
  by (cases read_result) (auto simp: getGeoJson_def)

text \<open>
  Claim C5. After a successful load, a feature's \<open>LAGE\<close> is \<open>UNKNOWN\<close> if it was absent
  or falsy (the empty string, \<open>null\<close> and zero among the falsy values) and is unchanged
  if it was truthy; likewise its \<open>Typ\<close>. Every other property, the geometry, the type
  tag and the bounding box are as they were read.
\<close>

theorem load_defaults:
  assumes "getGeoJson read_result = Inr loaded"
  shows "\<exists>g. read_result = Inr g \<and> coll_type loaded = coll_type g \<and> bbox loaded = bbox g \<and>
           length (features loaded) = length (features g) \<and>
           (\<forall>i<length (features g).
              let p = properties (features g ! i); p' = properties (features loaded ! i) in
              geometry (features loaded ! i) = geometry (features g ! i) \<and>
              get_prop p' ''LAGE'' =
                (if truthy (get_prop p ''LAGE'') then get_prop p ''LAGE'' else JStr ''UNKNOWN'') \<and>
              get_prop p' ''Typ'' =
                (if truthy (get_prop p ''Typ'') then get_prop p ''Typ'' else JStr ''UNKNOWN'') \<and>
              (\<not> has_prop p ''LAGE'' \<or> get_prop p ''LAGE'' \<in> {JStr [], JNull, JNum 0}
                 \<longrightarrow> get_prop p' ''LAGE'' = JStr ''UNKNOWN'') \<and>
              (\<not> has_prop p ''Typ'' \<or> get_prop p ''Typ'' \<in> {JStr [], JNull, JNum 0}
                 \<longrightarrow> get_prop p' ''Typ'' = JStr ''UNKNOWN'') \<and>
              (\<forall>k. k \<noteq> ''LAGE'' \<and> k \<noteq> ''Typ''
                 \<longrightarrow> get_prop p' k = get_prop p k \<and> has_prop p' k = has_prop p k))"
proof -
  from assms obtain g where g: "read_result = Inr g"
    and loaded: "loaded = g\<lparr>features := map cleanup (features g)\<rparr>"
    using getGeoJson_Inr by blast
  have "get_prop (properties (cleanup f)) k = JStr ''UNKNOWN''"
    if "k = ''LAGE'' \<or> k = ''Typ''"
      and "\<not> has_prop (properties f) k \<or> get_prop (properties f) k \<in> {JStr [], JNull, JNum 0}"
    for f k
  proof -
    from that(2) have "\<not> truthy (get_prop (properties f) k)"
      by (auto simp: get_prop_absent)
    with that(1) show ?thesis
      by (simp add: cleanup_get js_or_def)
  qed
  then show ?thesis
    using g loaded
    by (simp add: Let_def cleanup_geometry cleanup_get cleanup_has js_or_def)
qed

theorem load_defaults_witness:
  "getGeoJson (Inr example_collection) =
     Inr (example_collection\<lparr>features := map cleanup (features example_collection)\<rparr>) \<and>
   get_prop (properties (map cleanup (features example_collection) ! 0)) ''LAGE'' = JStr ''Koenigstrasse'' \<and>
   get_prop (properties (map cleanup (features example_collection) ! 1)) ''LAGE'' = JStr ''UNKNOWN'' \<and>
   get_prop (properties (map cleanup (features example_collection) ! 1)) ''Typ'' = JStr ''B'' \<and>
   get_prop (properties (map cleanup (features example_collection) ! 2)) ''Typ'' = JStr ''UNKNOWN''"
proof -
  have h: "getGeoJson (Inr example_collection) =
             Inr (example_collection\<lparr>features := map cleanup (features example_collection)\<rparr>)"
    by (simp add: getGeoJson_def)
  have n: "length (features example_collection) = 3"
    by (simp add: example_collection_def)
  from load_defaults[OF h] have
    "\<forall>i<3. let p = properties (features example_collection ! i);
                p' = properties (map cleanup (features example_collection) ! i) in
       get_prop p' ''LAGE'' =
         (if truthy (get_prop p ''LAGE'') then get_prop p ''LAGE'' else JStr ''UNKNOWN'') \<and>
       get_prop p' ''Typ'' =
         (if truthy (get_prop p ''Typ'') then get_prop p ''Typ'' else JStr ''UNKNOWN'')"
    by (simp add: n Let_def)
  then have "\<forall>i\<in>{0, 1, 2}. let p = properties (features example_collection ! i);
                p' = properties (map cleanup (features example_collection) ! i) in
       get_prop p' ''LAGE'' =
         (if truthy (get_prop p ''LAGE'') then get_prop p ''LAGE'' else JStr ''UNKNOWN'') \<and>
       get_prop p' ''Typ'' =
         (if truthy (get_prop p ''Typ'') then get_prop p ''Typ'' else JStr ''UNKNOWN'')"
    by simp
  then show ?thesis
    using h by (simp add: Let_def example_collection_def get_prop_def)
qed


section \<open>The classifier\<close>

lemma find_configured:
  "truthy ty \<Longrightarrow> js_includes (map type defs) ty \<Longrightarrow>
     \<exists>td. find (\<lambda>t. strict_eq (type t) ty) defs = Some td \<and> td \<in> set defs \<and> type td = ty"
  by (induction defs) (auto simp: js_includes_def strict_eq_truthy)

lemma find_not_configured:
  "\<not> js_includes (map type defs) ty \<Longrightarrow> find (\<lambda>t. type t = ty) defs = None"
  by (induction defs) (auto simp: js_includes_def)

lemma find_first: "find P xs = Some x \<Longrightarrow> x \<in> set xs \<and> P x"
  by (induction xs) (auto split: if_splits)

lemma find_distinct_key:
  "distinct (map k xs) \<Longrightarrow> x \<in> set xs \<Longrightarrow> find (\<lambda>t. k t = k x) xs = Some x"
  by (induction xs) force+

text \<open>
  With \<open>TYPES\<close> computed from the definitions, as line 66 does, the callback is a
  lookup of the first definition whose type code is the feature's \<open>Typ\<close>.
\<close>

lemma classify_derived:
  "classify (map type defs) defs f =
     (let ty = get_prop (properties f) ''Typ'' in
      if defs = [] then ([], Inr (Feature f))
      else if truthy ty then
        (case find (\<lambda>t. type t = ty) defs of
           Some td \<Rightarrow>
             ([Text (Valid_type_found ty)],
              Inr (Feature (f\<lparr>properties :=
                 set_prop (properties f) ''designation'' (JStr (designation td))\<rparr>)))
         | None \<Rightarrow> ([Warn (Unknown_type_found ty)], Inr (Feature f)))
      else ([], Inl (TypeError ''spinner.error is not a function'')))"
proof -
  let ?ty = "get_prop (properties f) ''Typ''"
  show ?thesis
  proof (cases "truthy ?ty \<and> js_includes (map type defs) ?ty")
    case True
    then obtain td where "find (\<lambda>t. strict_eq (type t) ?ty) defs = Some td"
      using find_configured by blast
    with True show ?thesis
      by (auto simp: classify_def Let_def strict_eq_truthy js_includes_def)
  next
    case False
    then have "truthy ?ty \<Longrightarrow> find (\<lambda>t. type t = ?ty) defs = None"
      using find_not_configured by blast
    with False show ?thesis
      by (auto simp: classify_def Let_def)
  qed
qed

lemma classify_no_spinner: "snd (classify (map type defs) defs f) \<noteq> Inr Spinner"
  by (simp add: classify_derived Let_def split: option.split)

lemma classify_truthy:
  "truthy (get_prop (properties f) ''Typ'') \<Longrightarrow>
     \<exists>f'. snd (classify (map type defs) defs f) = Inr (Feature f')"
  by (simp add: classify_derived Let_def split: option.split)

lemma classify_events:
  "e \<in> set (fst (classify (map type defs) defs f)) \<Longrightarrow>
     (\<exists>ty. e = Text (Valid_type_found ty)) \<or> (\<exists>ty. e = Warn (Unknown_type_found ty))"
  by (auto simp: classify_derived Let_def split: option.splits if_splits)

text \<open>The pass over the features: where no call throws, it is a \<open>map\<close>.\<close>

lemma classify_features_Inr:
  "snd (classify_features TYPES defs fs) = Inr ss \<Longrightarrow>
     length ss = length fs \<and>
     (\<forall>i<length fs. snd (classify TYPES defs (fs ! i)) = Inr (ss ! i)) \<and>
     fst (classify_features TYPES defs fs) = concat (map (\<lambda>f. fst (classify TYPES defs f)) fs)"
proof (induction fs arbitrary: ss)
  case Nil
  then show ?case by simp
next
  case (Cons f fs)
  obtain ev r where c: "classify TYPES defs f = (ev, r)"
    by (cases "classify TYPES defs f")
  obtain evs rs where cs: "classify_features TYPES defs fs = (evs, rs)"
    by (cases "classify_features TYPES defs fs")
  from Cons.prems c cs obtain s ss' where r: "r = Inr s" and rs: "rs = Inr ss'" and ss: "ss = s # ss'"
    by (auto split: sum.splits)
  from Cons.IH[of ss'] cs rs
  have ih: "length ss' = length fs"
    "\<forall>i<length fs. snd (classify TYPES defs (fs ! i)) = Inr (ss' ! i)"
    "evs = concat (map (\<lambda>f. fst (classify TYPES defs f)) fs)"
    by simp_all
  have "\<forall>i<length (f # fs). snd (classify TYPES defs ((f # fs) ! i)) = Inr (ss ! i)"
    using ih(2) c r ss by (auto simp: nth_Cons split: nat.split)
  with ih c cs r rs ss show ?case
    by simp
qed

lemma classify_features_events:
  "e \<in> set (fst (classify_features TYPES defs fs)) \<Longrightarrow>
     \<exists>f\<in>set fs. e \<in> set (fst (classify TYPES defs f))"
proof (induction fs)
  case Nil
  then show ?case by simp
next
  case (Cons f fs)
  then show ?case
    by (auto split: prod.splits sum.splits)
qed

lemma classify_features_all_Inr:
  "(\<And>f. f \<in> set fs \<Longrightarrow> \<exists>s. snd (classify TYPES defs f) = Inr s) \<Longrightarrow>
     \<exists>ss. snd (classify_features TYPES defs fs) = Inr ss"
proof (induction fs)
  case Nil
  show ?case by simp
next
  case (Cons f fs)
  then obtain ss where "snd (classify_features TYPES defs fs) = Inr ss"
    by auto
  moreover from Cons.prems[of f] obtain s where "snd (classify TYPES defs f) = Inr s"
    by auto
  ultimately show ?case
    by (auto split: prod.splits sum.splits)
qed

text \<open>
  No call throws on loaded features: the slots are features, one for each feature read.
\<close>

lemma classify_features_loaded:
  "\<exists>cs. snd (classify_features (map type defs) defs (map cleanup gs)) = Inr (map Feature cs) \<and>
        length cs = length gs \<and>
        (\<forall>i<length gs. snd (classify (map type defs) defs (cleanup (gs ! i))) =
                          Inr (Feature (cs ! i)))"
proof -
  have "\<exists>s. snd (classify (map type defs) defs f) = Inr s" if "f \<in> set (map cleanup gs)" for f
    using that classify_truthy[of f defs] cleanup_Typ_truthy by auto
  then obtain ss where ss: "snd (classify_features (map type defs) defs (map cleanup gs)) = Inr ss"
    using classify_features_all_Inr[of "map cleanup gs" "map type defs" defs] by blast
  from classify_features_Inr[OF ss]
  have len: "length ss = length gs"
    and each: "\<forall>i<length gs. snd (classify (map type defs) defs (cleanup (gs ! i))) = Inr (ss ! i)"
    by simp_all
  have "\<exists>c. ss ! i = Feature c" if "i < length gs" for i
    using that each classify_truthy[of "cleanup (gs ! i)" defs] cleanup_Typ_truthy by auto
  then have "\<forall>i<length ss. \<exists>c. ss ! i = Feature c"
    using len by simp
  then obtain cf where cf: "\<forall>i<length ss. ss ! i = Feature (cf i)"
    by metis
  let ?cs = "map cf [0..<length ss]"
  have a: "ss = map Feature ?cs"
    using cf by (intro nth_equalityI) simp_all
  have s': "snd (classify_features (map type defs) defs (map cleanup gs)) = Inr (map Feature ?cs)"
    by (rule trans[OF ss arg_cong[OF a, of Inr]])
  have b: "length ?cs = length gs"
    using len by simp
  have c: "\<forall>i<length gs. snd (classify (map type defs) defs (cleanup (gs ! i))) =
                          Inr (Feature (?cs ! i))"
    using each cf len by simp
  show ?thesis
    by (intro exI[of _ ?cs] conjI s' b c)
qed

text \<open>
  Claim C4, as the code has it. After classification with a non-empty definitions list,
  a loaded feature whose \<open>Typ\<close> is a configured type code has the designation of the
  first definition with that code (of the only one, if the codes are distinct) as its
  \<open>designation\<close>; a feature whose \<open>Typ\<close> is no configured code is returned as it is,
  so that it has a \<open>designation\<close> exactly if the record read had one.
\<close>

theorem classification_designation:
  assumes "defs \<noteq> []" and "getGeoJson (Inr g) = Inr loaded" and "i < length (features g)"
  shows "\<exists>ss f'. snd (classify_features (map type defs) defs (features loaded)) = Inr ss \<and>
           length ss = length (features g) \<and> ss ! i = Feature f' \<and>
           (let ty = get_prop (properties (features loaded ! i)) ''Typ'' in
            ((\<exists>t\<in>set defs. type t = ty) \<longrightarrow>
               has_prop (properties f') ''designation'' \<and>
               (\<exists>td\<in>set defs. type td = ty \<and> find (\<lambda>t. type t = ty) defs = Some td \<and>
                  get_prop (properties f') ''designation'' = JStr (designation td))) \<and>
            (\<forall>td\<in>set defs. type td = ty \<and> distinct (map type defs) \<longrightarrow>
               get_prop (properties f') ''designation'' = JStr (designation td)) \<and>
            ((\<forall>t\<in>set defs. type t \<noteq> ty) \<longrightarrow>
               f' = features loaded ! i \<and>
               has_prop (properties f') ''designation'' =
                 has_prop (properties (features g ! i)) ''designation'' \<and>
               get_prop (properties f') ''designation'' =
                 get_prop (properties (features g ! i)) ''designation''))"
proof -
  from assms(2) have loaded: "loaded = g\<lparr>features := map cleanup (features g)\<rparr>"
    using getGeoJson_Inr by blast
  let ?f = "features loaded ! i"
  let ?ty = "get_prop (properties ?f) ''Typ''"
  from assms(3) loaded have f: "?f = cleanup (features g ! i)"
    by simp
  then have truthy: "truthy ?ty"
    by (simp add: cleanup_Typ_truthy)
  obtain cs where cs:
    "snd (classify_features (map type defs) defs (map cleanup (features g))) = Inr (map Feature cs)"
    "length cs = length (features g)"
    "\<forall>i<length (features g).
        snd (classify (map type defs) defs (cleanup (features g ! i))) = Inr (Feature (cs ! i))"
    using classify_features_loaded by blast
  from cs(1) loaded
  have pass: "snd (classify_features (map type defs) defs (features loaded)) = Inr (map Feature cs)"
    by simp
  have len: "length (map Feature cs) = length (features g)"
    using cs(2) by simp
  from cs(2,3) assms(3) f
  have slot: "map Feature cs ! i = Feature (cs ! i)"
    and c: "snd (classify (map type defs) defs ?f) = Inr (Feature (cs ! i))"
    by simp_all
  show ?thesis
  proof (cases "find (\<lambda>t. type t = ?ty) defs")
    case None
    then have no: "\<forall>t\<in>set defs. type t \<noteq> ?ty"
      by (simp add: find_None_iff)
    from None assms(1) truthy c have same: "cs ! i = ?f"
      by (simp add: classify_derived Let_def)
    have h: "has_prop (properties ?f) ''designation'' =
               has_prop (properties (features g ! i)) ''designation''"
      and v: "get_prop (properties ?f) ''designation'' =
               get_prop (properties (features g ! i)) ''designation''"
      by (simp_all add: f cleanup_has cleanup_get)
    show ?thesis
      unfolding Let_def
    proof (intro exI[of _ "map Feature cs"] exI[of _ "cs ! i"] conjI)
      show "snd (classify_features (map type defs) defs (features loaded)) = Inr (map Feature cs)"
        by (rule pass)
      show "length (map Feature cs) = length (features g)"
        by (rule len)
      show "map Feature cs ! i = Feature (cs ! i)"
        by (rule slot)
    qed (use no same h v in auto)
  next
    case (Some td)
    then have td: "td \<in> set defs" "type td = ?ty"
      using find_first[of "\<lambda>t. type t = ?ty" defs td] by simp_all
    let ?f' = "?f\<lparr>properties := set_prop (properties ?f) ''designation'' (JStr (designation td))\<rparr>"
    from Some assms(1) truthy c have same: "cs ! i = ?f'"
      by (simp add: classify_derived Let_def)
    have a: "has_prop (properties ?f') ''designation''"
      and b: "get_prop (properties ?f') ''designation'' = JStr (designation td)"
      by (simp_all add: has_prop_set_prop get_prop_set_prop)
    have c': "\<forall>td'\<in>set defs. type td' = ?ty \<and> distinct (map type defs) \<longrightarrow>
               get_prop (properties ?f') ''designation'' = JStr (designation td')"
    proof (intro ballI impI)
      fix td' assume td': "td' \<in> set defs" and "type td' = ?ty \<and> distinct (map type defs)"
      then have ty: "type td' = ?ty" and "distinct (map type defs)"
        by simp_all
      from this(2) td' have "find (\<lambda>t. type t = type td') defs = Some td'"
        by (rule find_distinct_key)
      with ty Some have "td' = td"
        by simp
      with b show "get_prop (properties ?f') ''designation'' = JStr (designation td')"
        by simp
    qed
    have d: "\<not> (\<forall>t\<in>set defs. type t \<noteq> ?ty)"
      using td by blast
    have e: "\<exists>td\<in>set defs. type td = ?ty \<and> find (\<lambda>t. type t = ?ty) defs = Some td \<and>
               get_prop (properties ?f') ''designation'' = JStr (designation td)"
      using td Some b by blast
    show ?thesis
      unfolding Let_def
    proof (intro exI[of _ "map Feature cs"] exI[of _ ?f'] conjI)
      show "snd (classify_features (map type defs) defs (features loaded)) = Inr (map Feature cs)"
        by (rule pass)
      show "length (map Feature cs) = length (features g)"
        by (rule len)
      show "map Feature cs ! i = Feature ?f'"
        using slot same by simp
    qed (use a c' d e in blast)+
  qed
qed

theorem classification_designation_witness:
  "example_definitions \<noteq> [] \<and>
   getGeoJson (Inr example_collection) =
     Inr (example_collection\<lparr>features := map cleanup (features example_collection)\<rparr>) \<and>
   (\<exists>ss f'. snd (classify_features (map type example_definitions) example_definitions
                   (map cleanup (features example_collection))) = Inr ss \<and>
         ss ! 1 = Feature f' \<and>
         get_prop (properties f') ''designation'' = JStr ''Y'') \<and>
   (\<exists>ss f'. snd (classify_features (map type example_definitions) example_definitions
                   (map cleanup (features example_collection))) = Inr ss \<and>
         ss ! 2 = Feature f' \<and> f' = map cleanup (features example_collection) ! 2 \<and>
         \<not> has_prop (properties f') ''designation'')"
proof -
  have d: "example_definitions \<noteq> []"
    by (simp add: example_definitions_def)
  have h: "getGeoJson (Inr example_collection) =
             Inr (example_collection\<lparr>features := map cleanup (features example_collection)\<rparr>)"
    by (simp add: getGeoJson_def)
  have n: "1 < length (features example_collection)" "2 < length (features example_collection)"
    by (simp_all add: example_collection_def)
  have t1: "get_prop (properties (map cleanup (features example_collection) ! 1)) ''Typ'' = JStr ''B''"
    and t2: "get_prop (properties (map cleanup (features example_collection) ! 2)) ''Typ'' = JStr ''UNKNOWN''"
    and a2: "\<not> has_prop (properties (features example_collection ! 2)) ''designation''"
    by (simp_all add: example_collection_def cleanup_def Let_def get_prop_def js_or_def has_prop_def)
  have c1: "\<exists>t\<in>set example_definitions. type t = JStr ''B''"
    and k1: "\<forall>td\<in>set example_definitions. type td = JStr ''B'' \<longrightarrow> designation td = ''Y''"
    and c2: "\<forall>t\<in>set example_definitions. type t \<noteq> JStr ''UNKNOWN''"
    by (simp_all add: example_definitions_def)
  from classification_designation[OF d h n(1)] t1 c1 k1
  have "\<exists>ss f'. snd (classify_features (map type example_definitions) example_definitions
                   (map cleanup (features example_collection))) = Inr ss \<and>
         ss ! 1 = Feature f' \<and>
         get_prop (properties f') ''designation'' = JStr ''Y''"
    by (auto simp: Let_def)
  moreover
  from classification_designation[OF d h n(2)] t2 c2 a2
  have "\<exists>ss f'. snd (classify_features (map type example_definitions) example_definitions
                   (map cleanup (features example_collection))) = Inr ss \<and>
         ss ! 2 = Feature f' \<and> f' = map cleanup (features example_collection) ! 2 \<and>
         \<not> has_prop (properties f') ''designation''"
    by (auto simp: Let_def)
  ultimately show ?thesis
    using d h by blast
qed

text \<open>
  The second feature of the second example was read with the designation \<open>W\<close> and the
  type code \<open>Q\<close>, which no definition has: after classification it has its designation
  still.
\<close>

theorem classification_designation_counterexample:
  "example_definitions \<noteq> [] \<and>
   getGeoJson (Inr example_designated) = Inr example_designated \<and>
   get_prop (properties (features example_designated ! 1)) ''Typ'' = JStr ''Q'' \<and>
   \<not> js_includes (map type example_definitions) (JStr ''Q'') \<and>
   snd (classify_features (map type example_definitions) example_definitions
          (features example_designated)) =
     Inr [Feature
            \<lparr>geometry = \<lparr>coordinates = [[JNum 4425000, JNum 5480000]]\<rparr>,
             properties = [(''LAGE'', JStr ''Koenigstrasse''), (''Typ'', JStr ''A''),
                           (''designation'', JStr ''X'')]\<rparr>,
          Feature
            \<lparr>geometry = \<lparr>coordinates = [[JNum 4425300, JNum 5480300]]\<rparr>,
             properties = [(''LAGE'', JStr ''Uferweg''), (''Typ'', JStr ''Q''),
                           (''designation'', JStr ''W'')]\<rparr>] \<and>
   has_prop [(''LAGE'', JStr ''Uferweg''), (''Typ'', JStr ''Q''), (''designation'', JStr ''W'')]
     ''designation''"
  by (simp add: example_designated_def example_definitions_def getGeoJson_def cleanup_def
      get_prop_def js_or_def classify_def js_includes_def strict_eq_def has_prop_def Let_def)

section \<open>Reprojection and serialisation\<close>

lemma reproject_features_Feature:
  "reproject_features toWGS (map Feature fs) = Inr (map (reproject_geometry toWGS) fs)"
  by (induction fs) (simp_all add: reproject_feature_def)

lemma reproject_geometry_properties: "properties (reproject_geometry toWGS f) = properties f"
  by (simp add: reproject_geometry_def)

lemma json_value_idem: "json_value (json_value v) = json_value v"
  by (simp add: json_value_def)

lemma json_value_defined: "json_value v \<noteq> JUndefined"
  by (simp add: json_value_def)

lemma json_props_idem: "json_props (json_props ps) = json_props ps"
  by (induction ps) (auto simp: json_props_def json_value_idem json_value_defined)

lemma json_feature_idem: "json_feature (json_feature f) = json_feature f"
  by (simp add: json_feature_def json_props_idem json_value_idem comp_def)

lemma keys_json_props: "fst ` set (json_props ps) \<subseteq> fst ` set ps"
  by (force simp: json_props_def)

lemma map_of_json_props:
  "map_of ps k = Some v \<Longrightarrow> v \<noteq> JUndefined \<Longrightarrow> map_of (json_props ps) k = Some (json_value v)"
  by (induction ps) (auto simp: json_props_def split: if_splits)

lemma json_feature_filter:
  "map json_feature (filter P (map json_feature fs)) = filter P (map json_feature fs)"
  by (induction fs) (simp_all add: json_feature_idem)

text \<open>
  The text written for one designation, in terms of the text of the whole collection.
\<close>

lemma stringify_partition:
  "stringify \<lparr>coll_type = coll_type g,
              features = filter (\<lambda>f. strict_eq (get_prop (properties f) ''designation'') (JStr d))
                           (map json_feature (features g)),
              bbox = bbox g\<rparr> =
   \<lparr>coll_type = coll_type (stringify g),
    features = filter (\<lambda>f. get_prop (properties f) ''designation'' = JStr d)
                 (features (stringify g)),
    bbox = bbox (stringify g)\<rparr>"
  by (simp add: stringify_def json_feature_filter strict_eq_def cong: conj_cong)

section \<open>The writer\<close>

text \<open>
  The loop over the designations writes the files of the designations before the first
  whose write fails, and ends the run there.
\<close>

lemma write_designations_eq:
  "write_designations fs_ok name g ds r =
     (let ok = takeWhile (\<lambda>d. fs_ok (name @ ''_'' @ d @ ''.geojson'')) ds;
          r1 = r\<lparr>written := written r @
                    map (\<lambda>d. (name @ ''_'' @ d @ ''.geojson'',
                           stringify \<lparr>coll_type = coll_type g,
                             features = filter (\<lambda>f. strict_eq (get_prop (properties f) ''designation'') (JStr d))
                                          (map json_feature (features g)),
                             bbox = bbox g\<rparr>)) ok,
                  events := events r @
                    concat (map (\<lambda>d. [Text (Processing_designation d),
                                       Text (Successfully_wrote (name @ ''_'' @ d))]) ok)\<rparr>
      in if length ok = length ds then Inr r1
         else Inl (r1\<lparr>events := events r1 @ [Text (Processing_designation (ds ! length ok))],
                     outcome := Rejected (ReferenceError ''outputFile'')\<rparr>))"
proof (induction ds arbitrary: r)
  case Nil
  show ?case by simp
next
  case (Cons d ds)
  show ?case
  proof (cases "fs_ok (name @ ''_'' @ d @ ''.geojson'')")
    case True
    then show ?thesis
      by (simp add: Cons.IH saveGeoJson_def Let_def)
  next
    case False
    then show ?thesis
      by (simp add: saveGeoJson_def Let_def)
  qed
qed

text \<open>
  A run whose input was read, in closed form. The classification of loaded features
  does not throw.
\<close>

lemma getGeoJson_features:
  "getGeoJson read_result = Inr loaded \<Longrightarrow> \<exists>gs. features loaded = map cleanup gs"
  using getGeoJson_Inr by fastforce

lemma loaded_classified:
  assumes "getGeoJson read_result = Inr loaded"
  shows "\<exists>cs. snd (classify_features (map type defs) defs (features loaded)) = Inr (map Feature cs) \<and>
              length cs = length (features loaded) \<and>
              (\<forall>i<length cs. snd (classify (map type defs) defs (features loaded ! i)) =
                                Inr (Feature (cs ! i)) \<and>
                              truthy (get_prop (properties (features loaded ! i)) ''Typ''))"
proof -
  from assms obtain gs where gs: "features loaded = map cleanup gs"
    using getGeoJson_features by blast
  from classify_features_loaded[of defs gs] obtain cs where
    "snd (classify_features (map type defs) defs (map cleanup gs)) = Inr (map Feature cs)"
    "length cs = length gs"
    "\<forall>i<length gs. snd (classify (map type defs) defs (cleanup (gs ! i))) = Inr (Feature (cs ! i))"
    by blast
  then show ?thesis
    unfolding gs by (intro exI[of _ cs]) (simp add: cleanup_Typ_truthy)
qed

lemma shapeToGeojson_loaded:
  assumes "getGeoJson read_result = Inr loaded"
    and "defs = (case typesDefinitions opts of None \<Rightarrow> [] | Some ds \<Rightarrow> ds)"
    and "snd (classify_features (map type defs) defs (features loaded)) = Inr (map Feature cs)"
  shows "shapeToGeojson toWGS read_result fs_ok opts =
     (let name = outputFileName opts;
          ds = new_Set (map designation defs);
          whole = stringify (loaded\<lparr>features := map (reproject_geometry toWGS) cs,
                                     bbox := reproject_bbox toWGS (bbox loaded)\<rparr>);
          ok = takeWhile (\<lambda>d. fs_ok (name @ ''_'' @ d @ ''.geojson'')) ds;
          ev = [Start, Text (Reading_from (inputFileName opts))] @
               fst (classify_features (map type defs) defs (features loaded)) @
               concat (map (\<lambda>d. [Text (Processing_designation d),
                                  Text (Successfully_wrote (name @ ''_'' @ d))]) ok);
          files = map (\<lambda>d. (name @ ''_'' @ d @ ''.geojson'',
                         \<lparr>coll_type = coll_type whole,
                          features = filter (\<lambda>f. get_prop (properties f) ''designation'' = JStr d)
                                       (features whole),
                          bbox = bbox whole\<rparr>)) ok
      in if length ok \<noteq> length ds then
           \<lparr>events = ev @ [Text (Processing_designation (ds ! length ok))],
            written = files, outcome = Rejected (ReferenceError ''outputFile'')\<rparr>
         else if fs_ok (name @ ''.geojson'') then
           \<lparr>events = ev @ [Succeed (Geo_data_wrote name)],
            written = files @ [(name @ ''.geojson'', whole)], outcome = Resolved\<rparr>
         else
           \<lparr>events = ev @ [Fail (Error_saving name)], written = files, outcome = Resolved\<rparr>)"
  using assms(1,3)
  unfolding shapeToGeojson_def assms(2)[symmetric] Let_def write_designations_eq saveGeoJson_def
  by (simp add: reproject_features_Feature
      stringify_partition[of "loaded\<lparr>features := map (reproject_geometry toWGS) cs,
                                     bbox := reproject_bbox toWGS (bbox loaded)\<rparr>", simplified])

lemma shapeToGeojson_not_loaded:
  "read_result = Inl err \<Longrightarrow>
     shapeToGeojson toWGS read_result fs_ok opts =
       \<lparr>events = [Start, Text (Reading_from (inputFileName opts)),
                  Fail (Error_reading (Error_parsing_shape_file err))],
        written = [], outcome = Resolved\<rparr>"
  by (simp add: shapeToGeojson_def getGeoJson_def)

section \<open>Diagnostics of the classifier\<close>

lemma run_events_cases:
  assumes "e \<in> set (events (shapeToGeojson toWGS read_result fs_ok opts))"
    and "defs = (case typesDefinitions opts of None \<Rightarrow> [] | Some ds \<Rightarrow> ds)"
  shows "e = Start \<or> (\<exists>m. e = Text m) \<or> (\<exists>m. e = Succeed m) \<or>
         (\<exists>err. e = Fail (Error_reading err)) \<or> (\<exists>n. e = Fail (Error_saving n)) \<or>
         (\<exists>loaded. getGeoJson read_result = Inr loaded \<and>
            e \<in> set (fst (classify_features (map type defs) defs (features loaded))))"
proof (cases read_result)
  case (Inl err)
  with assms(1) show ?thesis
    by (auto simp: shapeToGeojson_not_loaded)
next
  case (Inr g)
  then obtain loaded where loaded: "getGeoJson read_result = Inr loaded"
    by (simp add: getGeoJson_def)
  obtain cs where
    "snd (classify_features (map type defs) defs (features loaded)) = Inr (map Feature cs)"
    using loaded_classified[OF loaded] by blast
  from shapeToGeojson_loaded[OF loaded assms(2) this, of toWGS fs_ok] assms(1) loaded
  show ?thesis
    by (auto simp: Let_def split: if_splits)
qed

text \<open>
  Claim C10. The lookup of line 86 succeeds whenever the test of line 84 did, so the
  branch of line 90 is taken for no feature: the callback never returns the spinner, no
  run reports a type definition as not found, and none is rejected by the reprojection
  reading the spinner's geometry.
\<close>

theorem not_found_unreachable:
  "(truthy ty \<and> js_includes (map type defs) ty \<longrightarrow>
      (\<exists>td\<in>set defs. type td = ty \<and> find (\<lambda>t. strict_eq (type t) ty) defs = Some td)) \<and>
   snd (classify (map type defs) defs f) \<noteq> Inr Spinner \<and>
   Fail (Type_definition_not_found ty) \<notin> set (fst (classify (map type defs) defs f)) \<and>
   Fail (Type_definition_not_found ty) \<notin> set (events (shapeToGeojson toWGS read_result fs_ok opts)) \<and>
   outcome (shapeToGeojson toWGS read_result fs_ok opts) \<noteq> Rejected (TypeError ''coordinates'')"
proof (intro conjI)
  show "truthy ty \<and> js_includes (map type defs) ty \<longrightarrow>
      (\<exists>td\<in>set defs. type td = ty \<and> find (\<lambda>t. strict_eq (type t) ty) defs = Some td)"
    using find_configured by blast
  show "snd (classify (map type defs) defs f) \<noteq> Inr Spinner"
    by (rule classify_no_spinner)
  show "Fail (Type_definition_not_found ty) \<notin> set (fst (classify (map type defs) defs f))"
    using classify_events[of _ defs f] by blast
  let ?defs = "case typesDefinitions opts of None \<Rightarrow> [] | Some ds \<Rightarrow> ds"
  show "Fail (Type_definition_not_found ty) \<notin> set (events (shapeToGeojson toWGS read_result fs_ok opts))"
  proof
    assume "Fail (Type_definition_not_found ty) \<in> set (events (shapeToGeojson toWGS read_result fs_ok opts))"
    from run_events_cases[OF this, of ?defs]
    obtain loaded :: geojson where
      "Fail (Type_definition_not_found ty) \<in> set (fst (classify_features (map type ?defs) ?defs (features loaded)))"
      by auto
    from classify_features_events[OF this] show False
      using classify_events[of "Fail (Type_definition_not_found ty)" ?defs]
      by auto
  qed
  show "outcome (shapeToGeojson toWGS read_result fs_ok opts) \<noteq> Rejected (TypeError ''coordinates'')"
  proof (cases read_result)
    case (Inl err)
    then show ?thesis
      by (simp add: shapeToGeojson_not_loaded)
  next
    case (Inr g)
    then obtain loaded where loaded: "getGeoJson read_result = Inr loaded"
      by (simp add: getGeoJson_def)
    obtain cs where
      "snd (classify_features (map type ?defs) ?defs (features loaded)) = Inr (map Feature cs)"
      using loaded_classified[OF loaded] by blast
    from shapeToGeojson_loaded[OF loaded refl this, of toWGS fs_ok]
    show ?thesis
      by (simp add: Let_def)
  qed
qed

theorem not_found_unreachable_witness:
  "truthy (JStr ''A'') \<and> js_includes (map type example_definitions) (JStr ''A'') \<and>
   (\<exists>td\<in>set example_definitions. type td = JStr ''A'' \<and>
      find (\<lambda>t. strict_eq (type t) (JStr ''A'')) example_definitions = Some td)"
proof -
  have h: "truthy (JStr ''A'') \<and> js_includes (map type example_definitions) (JStr ''A'')"
    by (simp add: js_includes_def example_definitions_def)
  from not_found_unreachable[of "JStr ''A''" example_definitions] h
  show ?thesis
    by blast
qed

text \<open>
  The loader leaves no \<open>Typ\<close> unset: an unset one is \<open>UNKNOWN\<close> afterwards. Given a
  non-empty definitions list in which \<open>UNKNOWN\<close> is no type code, the classifier reports
  a feature whose \<open>Typ\<close> is \<open>UNKNOWN\<close> with the warning for an unknown type code, which
  names the code and not the \<open>LAGE\<close> label, and returns the feature as it is. The branch
  of line 96 is taken for no loaded feature.
\<close>

lemma unset_type_warning:
  assumes "defs \<noteq> []" and "getGeoJson (Inr g) = Inr loaded" and "i < length (features g)"
    and "\<not> js_includes (map type defs) (JStr ''UNKNOWN'')"
  shows "\<not> truthy (get_prop (properties (features g ! i)) ''Typ'') \<longrightarrow>
            get_prop (properties (features loaded ! i)) ''Typ'' = JStr ''UNKNOWN''"
    and "get_prop (properties (features loaded ! i)) ''Typ'' = JStr ''UNKNOWN'' \<longrightarrow>
            classify (map type defs) defs (features loaded ! i) =
              ([Warn (Unknown_type_found (JStr ''UNKNOWN''))], Inr (Feature (features loaded ! i)))"
    and "truthy (get_prop (properties (features loaded ! i)) ''Typ'')"
proof -
  from assms(2) have loaded: "loaded = g\<lparr>features := map cleanup (features g)\<rparr>"
    using getGeoJson_Inr by blast
  with assms(3) have f: "features loaded ! i = cleanup (features g ! i)"
    by simp
  show "\<not> truthy (get_prop (properties (features g ! i)) ''Typ'') \<longrightarrow>
            get_prop (properties (features loaded ! i)) ''Typ'' = JStr ''UNKNOWN''"
    by (simp add: f cleanup_get js_or_def)
  show "get_prop (properties (features loaded ! i)) ''Typ'' = JStr ''UNKNOWN'' \<longrightarrow>
            classify (map type defs) defs (features loaded ! i) =
              ([Warn (Unknown_type_found (JStr ''UNKNOWN''))], Inr (Feature (features loaded ! i)))"
    using assms(1) find_not_configured[OF assms(4)]
    by (simp add: classify_derived Let_def)
  show "truthy (get_prop (properties (features loaded ! i)) ''Typ'')"
    by (simp add: f cleanup_Typ_truthy)
qed

text \<open>
  Claim C3. The third feature of the example has no \<open>Typ\<close> and the \<open>LAGE\<close> label
  \<open>Flussweg\<close>. The run reports it with the warning that names \<open>UNKNOWN\<close>: it makes no
  error-level call and names the label nowhere. Line 96, which is written to report
  such a feature, is not reached after the default of line 24; on the feature as it was
  read it throws, and emits nothing.
\<close>

theorem unset_type_diagnostic:
  "get_prop (properties (features example_collection ! 2)) ''Typ'' = JNull \<and>
   get_prop (properties (features example_collection ! 2)) ''LAGE'' = JStr ''Flussweg'' \<and>
   events (shapeToGeojson toWGS (Inr example_collection) every_write_ok example_options) =
     [Start, Text (Reading_from ''in''),
      Text (Valid_type_found (JStr ''A'')),
      Text (Valid_type_found (JStr ''B'')),
      Warn (Unknown_type_found (JStr ''UNKNOWN'')),
      Text (Processing_designation ''X''), Text (Successfully_wrote ''out_X''),
      Text (Processing_designation ''Y''), Text (Successfully_wrote ''out_Y''),
      Succeed (Geo_data_wrote ''out'')] \<and>
   classify (map type example_definitions) example_definitions (features example_collection ! 2) =
     ([], Inl (TypeError ''spinner.error is not a function''))"
  by (simp add: shapeToGeojson_def example_collection_def example_options_def
      example_definitions_def every_write_ok_def getGeoJson_def cleanup_def get_prop_def
      js_or_def classify_def js_includes_def strict_eq_def
      reproject_feature_def new_Set_def set_add_def saveGeoJson_def Let_def)

section \<open>Successful runs\<close>

lemma foldl_set_add_set: "set (foldl set_add s xs) = set s \<union> set xs"
  by (induction xs arbitrary: s) (auto simp: set_add_def)

lemma foldl_set_add_distinct: "distinct s \<Longrightarrow> distinct (foldl set_add s xs)"
  by (induction xs arbitrary: s) (auto simp: set_add_def)

lemma set_new_Set: "set (new_Set xs) = set xs"
  by (simp add: new_Set_def foldl_set_add_set)

lemma distinct_new_Set: "distinct (new_Set xs)"
  by (simp add: new_Set_def foldl_set_add_distinct)

lemma length_new_Set: "length (new_Set xs) = card (set xs)"
  using distinct_card[OF distinct_new_Set, of xs] by (simp add: set_new_Set)

lemma takeWhile_all: "length (takeWhile P xs) = length xs \<Longrightarrow> takeWhile P xs = xs"
  by (induction xs) (auto split: if_splits)

lemma designation_paths_distinct:
  "distinct ds \<Longrightarrow> distinct (map (\<lambda>d. name @ ''_'' @ d @ ''.geojson'') ds @ [name @ ''.geojson''])"
  by (auto simp: distinct_map inj_on_def)

lemma map_of_designation_path:
  "d \<in> set ds \<Longrightarrow>
     map_of (map (\<lambda>d. (name @ ''_'' @ d @ ''.geojson'', part d)) ds @ rest)
       (name @ ''_'' @ d @ ''.geojson'') = Some (part d)"
  by (induction ds) auto

lemma map_of_combined_path:
  "map_of (map (\<lambda>d. (name @ ''_'' @ d @ ''.geojson'', part d)) ds @ [(name @ ''.geojson'', whole)])
     (name @ ''.geojson'') = Some whole"
  by (induction ds) auto


text \<open>
  A run that reports success has read its input and written, in this order, the file of
  each designation and the file of the whole collection.
\<close>

lemma successful_run:
  assumes "Succeed m \<in> set (events (shapeToGeojson toWGS read_result fs_ok opts))"
    and "defs = (case typesDefinitions opts of None \<Rightarrow> [] | Some ds \<Rightarrow> ds)"
  shows "\<exists>loaded cs.
           getGeoJson read_result = Inr loaded \<and>
           snd (classify_features (map type defs) defs (features loaded)) = Inr (map Feature cs) \<and>
           length cs = length (features loaded) \<and>
           (\<forall>i<length cs. snd (classify (map type defs) defs (features loaded ! i)) =
                             Inr (Feature (cs ! i)) \<and>
                           truthy (get_prop (properties (features loaded ! i)) ''Typ'')) \<and>
           written (shapeToGeojson toWGS read_result fs_ok opts) =
             (let whole = stringify (loaded\<lparr>features := map (reproject_geometry toWGS) cs,
                                            bbox := reproject_bbox toWGS (bbox loaded)\<rparr>)
              in map (\<lambda>d. (outputFileName opts @ ''_'' @ d @ ''.geojson'',
                        \<lparr>coll_type = coll_type whole,
                         features = filter (\<lambda>f. get_prop (properties f) ''designation'' = JStr d)
                                      (features whole),
                         bbox = bbox whole\<rparr>)) (new_Set (map designation defs)) @
                 [(outputFileName opts @ ''.geojson'', whole)]) \<and>
           outcome (shapeToGeojson toWGS read_result fs_ok opts) = Resolved"
proof (cases read_result)
  case (Inl err)
  with assms(1) show ?thesis
    by (simp add: shapeToGeojson_not_loaded)
next
  case (Inr g)
  then obtain loaded where loaded: "getGeoJson read_result = Inr loaded"
    by (simp add: getGeoJson_def)
  obtain cs where cs:
    "snd (classify_features (map type defs) defs (features loaded)) = Inr (map Feature cs)"
    "length cs = length (features loaded)"
    "\<forall>i<length cs. snd (classify (map type defs) defs (features loaded ! i)) =
                       Inr (Feature (cs ! i)) \<and>
                     truthy (get_prop (properties (features loaded ! i)) ''Typ'')"
    using loaded_classified[OF loaded] by blast
  let ?ds = "new_Set (map designation defs)"
  let ?ok = "takeWhile (\<lambda>d. fs_ok (outputFileName opts @ ''_'' @ d @ ''.geojson'')) ?ds"
  note run = shapeToGeojson_loaded[OF loaded assms(2) cs(1), of toWGS fs_ok]
  have no: "Succeed m \<notin> set (fst (classify_features (map type defs) defs (features loaded)))"
    using classify_features_events[of "Succeed m" "map type defs" defs "features loaded"]
      classify_events[of "Succeed m" defs] by auto
  have len: "length ?ok = length ?ds"
  proof (rule ccontr)
    assume "length ?ok \<noteq> length ?ds"
    with run assms(1) no show False
      by (auto simp: Let_def)
  qed
  then have ok: "?ok = ?ds"
    by (rule takeWhile_all)
  have c: "fs_ok (outputFileName opts @ ''.geojson'')"
  proof (rule ccontr)
    assume "\<not> fs_ok (outputFileName opts @ ''.geojson'')"
    with run assms(1) no len show False
      by (auto simp: Let_def)
  qed
  from run have "shapeToGeojson toWGS read_result fs_ok opts =
     (let whole = stringify (loaded\<lparr>features := map (reproject_geometry toWGS) cs,
                                    bbox := reproject_bbox toWGS (bbox loaded)\<rparr>)
      in \<lparr>events = [Start, Text (Reading_from (inputFileName opts))] @
               fst (classify_features (map type defs) defs (features loaded)) @
               concat (map (\<lambda>d. [Text (Processing_designation d),
                                  Text (Successfully_wrote (outputFileName opts @ ''_'' @ d))]) ?ds) @
               [Succeed (Geo_data_wrote (outputFileName opts))],
          written = map (\<lambda>d. (outputFileName opts @ ''_'' @ d @ ''.geojson'',
                        \<lparr>coll_type = coll_type whole,
                         features = filter (\<lambda>f. get_prop (properties f) ''designation'' = JStr d)
                                      (features whole),
                         bbox = bbox whole\<rparr>)) ?ds @
                 [(outputFileName opts @ ''.geojson'', whole)],
          outcome = Resolved\<rparr>)"
    unfolding Let_def ok using c by simp
  with loaded cs show ?thesis
    by (intro exI[of _ loaded] exI[of _ cs]) (simp add: Let_def)
qed

text \<open>
  The text of the whole collection, spelled out: each coordinate array converted to
  longitude and latitude, the bounding box as line 113 builds it, the properties in
  their order; a property whose value is \<open>undefined\<close> is left out, and \<open>undefined\<close>
  in an array and \<open>NaN\<close> are written as \<open>null\<close>.
\<close>

lemma whole_content:
  "stringify (loaded\<lparr>features := map (reproject_geometry toWGS) cs,
                     bbox := reproject_bbox toWGS (bbox loaded)\<rparr>) =
   \<lparr>coll_type = coll_type loaded,
    features =
      map (\<lambda>c. \<lparr>geometry =
                  \<lparr>coordinates =
                     map (\<lambda>xy. map (\<lambda>v. if v = JUndefined \<or> v = JNaN then JNull else v)
                                 [longitude (toWGS (js_index xy 0) (js_index xy 1)),
                                  latitude (toWGS (js_index xy 0) (js_index xy 1))])
                       (coordinates (geometry c))\<rparr>,
                properties =
                  map (\<lambda>p. (fst p, if snd p = JUndefined \<or> snd p = JNaN then JNull else snd p))
                    (filter (\<lambda>p. snd p \<noteq> JUndefined) (properties c))\<rparr>) cs,
    bbox =
      map (\<lambda>v. if v = JUndefined \<or> v = JNaN then JNull else v)
        [latitude (toWGS (js_index (bbox loaded) 0) (js_index (bbox loaded) 1)),
         longitude (toWGS (js_index (bbox loaded) 0) (js_index (bbox loaded) 1)),
         latitude (toWGS (js_index (bbox loaded) 2) (js_index (bbox loaded) 3)),
         longitude (toWGS (js_index (bbox loaded) 2) (js_index (bbox loaded) 3))]\<rparr>"
  by (simp add: stringify_def json_feature_def json_props_def json_value_def
      reproject_geometry_def reproject_coordinates_def reproject_bbox_def Let_def comp_def)

text \<open>What the classifier returns for a loaded feature.\<close>

lemma classified_feature:
  assumes "snd (classify (map type defs) defs f) = Inr (Feature c)"
    and "truthy (get_prop (properties f) ''Typ'')"
  shows "c = (case find (\<lambda>t. type t = get_prop (properties f) ''Typ'') defs of
                None \<Rightarrow> f
              | Some td \<Rightarrow>
                  f\<lparr>properties :=
                      set_prop (properties f) ''designation'' (JStr (designation td))\<rparr>)"
proof (cases "defs = []")
  case True
  with assms(1) show ?thesis
    by (simp add: classify_def)
next
  case False
  with assms show ?thesis
    by (auto simp: classify_derived Let_def split: option.splits)
qed

text \<open>
  Claim C8. A run that reports success has written one file more than there are distinct
  designations among the definitions, no two under the same name. The last file, named
  by the prefix and \<open>.geojson\<close>, holds the whole collection: the type tag as read, the
  bounding box as line 113 converts it, and every loaded feature in its place, with the
  designation of the first definition that has its type code attached if there is one,
  its coordinate arrays converted and its properties as JSON keeps them. Each
  designation's file is named by the prefix, an underscore, the designation and
  \<open>.geojson\<close>, and holds the features of the whole collection with that designation,
  in their order, under the same type tag and bounding box.
\<close>

theorem output_files:
  assumes "defs = (case typesDefinitions opts of None \<Rightarrow> [] | Some ds \<Rightarrow> ds)"
    and "run = shapeToGeojson toWGS read_result fs_ok opts"
    and "Succeed (Geo_data_wrote (outputFileName opts)) \<in> set (events run)"
  shows "\<exists>loaded cs.
           getGeoJson read_result = Inr loaded \<and>
           length cs = length (features loaded) \<and>
           (\<forall>i<length cs.
              cs ! i =
                (case find (\<lambda>t. type t = get_prop (properties (features loaded ! i)) ''Typ'') defs of
                   None \<Rightarrow> features loaded ! i
                 | Some td \<Rightarrow>
                     (features loaded ! i)\<lparr>properties :=
                        set_prop (properties (features loaded ! i)) ''designation''
                          (JStr (designation td))\<rparr>)) \<and>
           written run =
             (let whole =
                    \<lparr>coll_type = coll_type loaded,
                     features =
                       map (\<lambda>c. \<lparr>geometry =
                                   \<lparr>coordinates =
                                      map (\<lambda>xy. map (\<lambda>v. if v = JUndefined \<or> v = JNaN
                                                         then JNull else v)
                                                  [longitude (toWGS (js_index xy 0) (js_index xy 1)),
                                                   latitude (toWGS (js_index xy 0) (js_index xy 1))])
                                        (coordinates (geometry c))\<rparr>,
                                 properties =
                                   map (\<lambda>p. (fst p, if snd p = JUndefined \<or> snd p = JNaN
                                                     then JNull else snd p))
                                     (filter (\<lambda>p. snd p \<noteq> JUndefined) (properties c))\<rparr>) cs,
                     bbox =
                       map (\<lambda>v. if v = JUndefined \<or> v = JNaN then JNull else v)
                         [latitude (toWGS (js_index (bbox loaded) 0) (js_index (bbox loaded) 1)),
                          longitude (toWGS (js_index (bbox loaded) 0) (js_index (bbox loaded) 1)),
                          latitude (toWGS (js_index (bbox loaded) 2) (js_index (bbox loaded) 3)),
                          longitude (toWGS (js_index (bbox loaded) 2) (js_index (bbox loaded) 3))]\<rparr>
              in map (\<lambda>d. (outputFileName opts @ ''_'' @ d @ ''.geojson'',
                        \<lparr>coll_type = coll_type whole,
                         features = filter (\<lambda>f. get_prop (properties f) ''designation'' = JStr d)
                                      (features whole),
                         bbox = bbox whole\<rparr>)) (new_Set (map designation defs)) @
                 [(outputFileName opts @ ''.geojson'', whole)]) \<and>
           set (new_Set (map designation defs)) = designation ` set defs \<and>
           distinct (new_Set (map designation defs)) \<and>
           length (written run) = card (designation ` set defs) + 1 \<and>
           distinct (map fst (written run)) \<and>
           outcome run = Resolved"
proof -
  from successful_run[OF assms(3)[unfolded assms(2)] assms(1)]
  obtain loaded cs where loaded: "getGeoJson read_result = Inr loaded"
    and len: "length cs = length (features loaded)"
    and each: "\<forall>i<length cs. snd (classify (map type defs) defs (features loaded ! i)) =
                                  Inr (Feature (cs ! i)) \<and>
                                truthy (get_prop (properties (features loaded ! i)) ''Typ'')"
    and w: "written run =
             (let whole = stringify (loaded\<lparr>features := map (reproject_geometry toWGS) cs,
                                            bbox := reproject_bbox toWGS (bbox loaded)\<rparr>)
              in map (\<lambda>d. (outputFileName opts @ ''_'' @ d @ ''.geojson'',
                        \<lparr>coll_type = coll_type whole,
                         features = filter (\<lambda>f. get_prop (properties f) ''designation'' = JStr d)
                                      (features whole),
                         bbox = bbox whole\<rparr>)) (new_Set (map designation defs)) @
                 [(outputFileName opts @ ''.geojson'', whole)])"
    and o: "outcome run = Resolved"
    unfolding assms(2) by blast
  have cs: "\<forall>i<length cs.
              cs ! i =
                (case find (\<lambda>t. type t = get_prop (properties (features loaded ! i)) ''Typ'') defs of
                   None \<Rightarrow> features loaded ! i
                 | Some td \<Rightarrow>
                     (features loaded ! i)\<lparr>properties :=
                        set_prop (properties (features loaded ! i)) ''designation''
                          (JStr (designation td))\<rparr>)"
    using each classified_feature by blast
  note w' = w[unfolded whole_content]
  have n: "length (written run) = card (designation ` set defs) + 1"
    by (simp add: w Let_def length_new_Set)
  have "map fst (written run) =
          map (\<lambda>d. outputFileName opts @ ''_'' @ d @ ''.geojson'') (new_Set (map designation defs)) @
          [outputFileName opts @ ''.geojson'']"
    by (simp add: w Let_def comp_def)
  then have d: "distinct (map fst (written run))"
    using designation_paths_distinct[OF distinct_new_Set] by simp
  show ?thesis
    by (intro exI[of _ loaded] exI[of _ cs] conjI loaded len cs w' set_new_Set
        distinct_new_Set n d o)
      (simp add: set_new_Set)
qed

theorem output_files_witness:
  "example_definitions =
     (case typesDefinitions example_options of None \<Rightarrow> [] | Some ds \<Rightarrow> ds) \<and>
   Succeed (Geo_data_wrote (outputFileName example_options))
     \<in> set (events (shapeToGeojson example_toWGS (Inr example_collection) every_write_ok
                      example_options)) \<and>
   written (shapeToGeojson example_toWGS (Inr example_collection) every_write_ok
              example_options) =
     [(''out_X.geojson'',
       \<lparr>coll_type = ''FeatureCollection'',
        features =
          [\<lparr>geometry = \<lparr>coordinates = [[JNum 1000, JNum 10000]]\<rparr>,
            properties = [(''LAGE'', JStr ''Koenigstrasse''), (''Typ'', JStr ''A''),
                          (''designation'', JStr ''X'')]\<rparr>],
        bbox = [JNum 10000, JNum 1000, JNum 10200, JNum 1200]\<rparr>),
      (''out_Y.geojson'',
       \<lparr>coll_type = ''FeatureCollection'',
        features =
          [\<lparr>geometry = \<lparr>coordinates = [[JNum 1100, JNum 10100]]\<rparr>,
            properties = [(''LAGE'', JStr ''UNKNOWN''), (''Typ'', JStr ''B''),
                          (''designation'', JStr ''Y'')]\<rparr>],
        bbox = [JNum 10000, JNum 1000, JNum 10200, JNum 1200]\<rparr>),
      (''out.geojson'',
       \<lparr>coll_type = ''FeatureCollection'',
        features =
          [\<lparr>geometry = \<lparr>coordinates = [[JNum 1000, JNum 10000]]\<rparr>,
            properties = [(''LAGE'', JStr ''Koenigstrasse''), (''Typ'', JStr ''A''),
                          (''designation'', JStr ''X'')]\<rparr>,
           \<lparr>geometry = \<lparr>coordinates = [[JNum 1100, JNum 10100]]\<rparr>,
            properties = [(''LAGE'', JStr ''UNKNOWN''), (''Typ'', JStr ''B''),
                          (''designation'', JStr ''Y'')]\<rparr>,
           \<lparr>geometry = \<lparr>coordinates = [[JNum 1200, JNum 10200]]\<rparr>,
            properties = [(''LAGE'', JStr ''Flussweg''), (''Typ'', JStr ''UNKNOWN'')]\<rparr>],
        bbox = [JNum 10000, JNum 1000, JNum 10200, JNum 1200]\<rparr>)] \<and>
   card (designation ` set example_definitions) = 2"
proof -
  let ?run = "shapeToGeojson example_toWGS (Inr example_collection) every_write_ok example_options"
  have d: "example_definitions =
             (case typesDefinitions example_options of None \<Rightarrow> [] | Some ds \<Rightarrow> ds)"
    by (simp add: example_options_def)
  have s: "Succeed (Geo_data_wrote (outputFileName example_options)) \<in> set (events ?run)"
    by (simp add: shapeToGeojson_def example_collection_def example_options_def
        example_definitions_def every_write_ok_def getGeoJson_def cleanup_def get_prop_def
        js_or_def classify_def js_includes_def strict_eq_def
        reproject_feature_def new_Set_def set_add_def saveGeoJson_def Let_def)
  have c: "card (designation ` set example_definitions) = 2"
    by (simp add: example_definitions_def)
  have l: "getGeoJson (Inr example_collection) =
             Inr (example_collection\<lparr>features := map cleanup (features example_collection)\<rparr>)"
    by (simp add: getGeoJson_def)
  from output_files[OF d refl s] obtain loaded cs where
    "getGeoJson (Inr example_collection) = Inr loaded"
    and len: "length cs = length (features loaded)"
    and cs: "\<forall>i<length cs.
              cs ! i =
                (case find (\<lambda>t. type t = get_prop (properties (features loaded ! i)) ''Typ'')
                        example_definitions of
                   None \<Rightarrow> features loaded ! i
                 | Some td \<Rightarrow>
                     (features loaded ! i)\<lparr>properties :=
                        set_prop (properties (features loaded ! i)) ''designation''
                          (JStr (designation td))\<rparr>)"
    and w: "written ?run =
             (let whole =
                    \<lparr>coll_type = coll_type loaded,
                     features =
                       map (\<lambda>c. \<lparr>geometry =
                                   \<lparr>coordinates =
                                      map (\<lambda>xy. map (\<lambda>v. if v = JUndefined \<or> v = JNaN
                                                         then JNull else v)
                                                  [longitude (example_toWGS (js_index xy 0) (js_index xy 1)),
                                                   latitude (example_toWGS (js_index xy 0) (js_index xy 1))])
                                        (coordinates (geometry c))\<rparr>,
                                 properties =
                                   map (\<lambda>p. (fst p, if snd p = JUndefined \<or> snd p = JNaN
                                                     then JNull else snd p))
                                     (filter (\<lambda>p. snd p \<noteq> JUndefined) (properties c))\<rparr>) cs,
                     bbox =
                       map (\<lambda>v. if v = JUndefined \<or> v = JNaN then JNull else v)
                         [latitude (example_toWGS (js_index (bbox loaded) 0) (js_index (bbox loaded) 1)),
                          longitude (example_toWGS (js_index (bbox loaded) 0) (js_index (bbox loaded) 1)),
                          latitude (example_toWGS (js_index (bbox loaded) 2) (js_index (bbox loaded) 3)),
                          longitude (example_toWGS (js_index (bbox loaded) 2) (js_index (bbox loaded) 3))]\<rparr>
              in map (\<lambda>d. (outputFileName example_options @ ''_'' @ d @ ''.geojson'',
                        \<lparr>coll_type = coll_type whole,
                         features = filter (\<lambda>f. get_prop (properties f) ''designation'' = JStr d)
                                      (features whole),
                         bbox = bbox whole\<rparr>)) (new_Set (map designation example_definitions)) @
                 [(outputFileName example_options @ ''.geojson'', whole)])"
    by blast
  with l have loaded: "loaded = example_collection\<lparr>features := map cleanup (features example_collection)\<rparr>"
    by simp
  have fl: "features loaded =
     [\<lparr>geometry = \<lparr>coordinates = [[JNum 4425000, JNum 5480000]]\<rparr>,
       properties = [(''LAGE'', JStr ''Koenigstrasse''), (''Typ'', JStr ''A'')]\<rparr>,
      \<lparr>geometry = \<lparr>coordinates = [[JNum 4425100, JNum 5480100]]\<rparr>,
       properties = [(''LAGE'', JStr ''UNKNOWN''), (''Typ'', JStr ''B'')]\<rparr>,
      \<lparr>geometry = \<lparr>coordinates = [[JNum 4425200, JNum 5480200]]\<rparr>,
       properties = [(''LAGE'', JStr ''Flussweg''), (''Typ'', JStr ''UNKNOWN'')]\<rparr>]"
    and bl: "bbox loaded = [JNum 4425000, JNum 5480000, JNum 4425200, JNum 5480200]"
    and tl: "coll_type loaded = ''FeatureCollection''"
    by (simp_all add: loaded example_collection_def cleanup_def get_prop_def js_or_def Let_def)
  from len fl have n: "length cs = 3"
    by simp
  have c0: "cs ! 0 =
        \<lparr>geometry = \<lparr>coordinates = [[JNum 4425000, JNum 5480000]]\<rparr>,
         properties = [(''LAGE'', JStr ''Koenigstrasse''), (''Typ'', JStr ''A''),
                       (''designation'', JStr ''X'')]\<rparr>"
    using cs[rule_format, of 0] n by (simp add: fl example_definitions_def get_prop_def)
  have c1: "cs ! 1 =
        \<lparr>geometry = \<lparr>coordinates = [[JNum 4425100, JNum 5480100]]\<rparr>,
         properties = [(''LAGE'', JStr ''UNKNOWN''), (''Typ'', JStr ''B''),
                       (''designation'', JStr ''Y'')]\<rparr>"
    using cs[rule_format, of 1] n by (simp add: fl example_definitions_def get_prop_def)
  have c2: "cs ! 2 =
        \<lparr>geometry = \<lparr>coordinates = [[JNum 4425200, JNum 5480200]]\<rparr>,
         properties = [(''LAGE'', JStr ''Flussweg''), (''Typ'', JStr ''UNKNOWN'')]\<rparr>"
    using cs[rule_format, of 2] n by (simp add: fl example_definitions_def get_prop_def)
  have "cs = [cs ! 0, cs ! 1, cs ! 2]"
    using n by (intro nth_equalityI) (auto simp: nth_Cons numeral_2_eq_2 split: nat.split)
  with c0 c1 c2 have cs': "cs =
       [\<lparr>geometry = \<lparr>coordinates = [[JNum 4425000, JNum 5480000]]\<rparr>,
         properties = [(''LAGE'', JStr ''Koenigstrasse''), (''Typ'', JStr ''A''),
                       (''designation'', JStr ''X'')]\<rparr>,
        \<lparr>geometry = \<lparr>coordinates = [[JNum 4425100, JNum 5480100]]\<rparr>,
         properties = [(''LAGE'', JStr ''UNKNOWN''), (''Typ'', JStr ''B''),
                       (''designation'', JStr ''Y'')]\<rparr>,
        \<lparr>geometry = \<lparr>coordinates = [[JNum 4425200, JNum 5480200]]\<rparr>,
         properties = [(''LAGE'', JStr ''Flussweg''), (''Typ'', JStr ''UNKNOWN'')]\<rparr>]"
    by simp
  have ds: "new_Set (map designation example_definitions) = [''X'', ''Y'']"
    by (simp add: new_Set_def set_add_def example_definitions_def)
  have o: "outputFileName example_options = ''out''"
    by (simp add: example_options_def)
  have "written ?run =
     [(''out_X.geojson'',
       \<lparr>coll_type = ''FeatureCollection'',
        features =
          [\<lparr>geometry = \<lparr>coordinates = [[JNum 1000, JNum 10000]]\<rparr>,
            properties = [(''LAGE'', JStr ''Koenigstrasse''), (''Typ'', JStr ''A''),
                          (''designation'', JStr ''X'')]\<rparr>],
        bbox = [JNum 10000, JNum 1000, JNum 10200, JNum 1200]\<rparr>),
      (''out_Y.geojson'',
       \<lparr>coll_type = ''FeatureCollection'',
        features =
          [\<lparr>geometry = \<lparr>coordinates = [[JNum 1100, JNum 10100]]\<rparr>,
            properties = [(''LAGE'', JStr ''UNKNOWN''), (''Typ'', JStr ''B''),
                          (''designation'', JStr ''Y'')]\<rparr>],
        bbox = [JNum 10000, JNum 1000, JNum 10200, JNum 1200]\<rparr>),
      (''out.geojson'',
       \<lparr>coll_type = ''FeatureCollection'',
        features =
          [\<lparr>geometry = \<lparr>coordinates = [[JNum 1000, JNum 10000]]\<rparr>,
            properties = [(''LAGE'', JStr ''Koenigstrasse''), (''Typ'', JStr ''A''),
                          (''designation'', JStr ''X'')]\<rparr>,
           \<lparr>geometry = \<lparr>coordinates = [[JNum 1100, JNum 10100]]\<rparr>,
            properties = [(''LAGE'', JStr ''UNKNOWN''), (''Typ'', JStr ''B''),
                          (''designation'', JStr ''Y'')]\<rparr>,
           \<lparr>geometry = \<lparr>coordinates = [[JNum 1200, JNum 10200]]\<rparr>,
            properties = [(''LAGE'', JStr ''Flussweg''), (''Typ'', JStr ''UNKNOWN'')]\<rparr>],
        bbox = [JNum 10000, JNum 1000, JNum 10200, JNum 1200]\<rparr>)]"
    unfolding w cs' ds o bl tl
    by (simp add: Let_def js_index_def example_toWGS_def get_prop_def)
  with d s c show ?thesis
    by simp
qed

text \<open>
  Claim C7. With no definitions, absent or empty, the classification pass returns every
  feature as it is and reports nothing; the run writes no file but that of the whole
  collection, which, when the input was read and the write succeeds, holds the loaded
  features with only their coordinates converted.
\<close>

theorem no_definitions:
  assumes "typesDefinitions opts = None \<or> typesDefinitions opts = Some []"
    and "run = shapeToGeojson toWGS read_result fs_ok opts"
  shows "classify_features (map type []) [] fs = ([], Inr (map Feature fs)) \<and>
         (\<forall>p\<in>fst ` set (written run). p = outputFileName opts @ ''.geojson'') \<and>
         (\<forall>loaded. getGeoJson read_result = Inr loaded \<and> fs_ok (outputFileName opts @ ''.geojson'')
            \<longrightarrow> written run =
                  [(outputFileName opts @ ''.geojson'',
                    stringify (loaded\<lparr>features := map (reproject_geometry toWGS) (features loaded),
                                      bbox := reproject_bbox toWGS (bbox loaded)\<rparr>))] \<and>
                events run = [Start, Text (Reading_from (inputFileName opts)),
                              Succeed (Geo_data_wrote (outputFileName opts))] \<and>
                outcome run = Resolved)"
proof -
  have cl: "classify_features (map type []) [] fs' = ([], Inr (map Feature fs'))" for fs'
    by (induction fs') (simp_all add: classify_def)
  from assms(1) have defs: "[] = (case typesDefinitions opts of None \<Rightarrow> [] | Some ds \<Rightarrow> ds)"
    by auto
  have loaded_run: "run =
      (if fs_ok (outputFileName opts @ ''.geojson'') then
         \<lparr>events = [Start, Text (Reading_from (inputFileName opts)),
                    Succeed (Geo_data_wrote (outputFileName opts))],
          written = [(outputFileName opts @ ''.geojson'',
                      stringify (loaded\<lparr>features := map (reproject_geometry toWGS) (features loaded),
                                        bbox := reproject_bbox toWGS (bbox loaded)\<rparr>))],
          outcome = Resolved\<rparr>
       else
         \<lparr>events = [Start, Text (Reading_from (inputFileName opts)),
                    Fail (Error_saving (outputFileName opts))],
          written = [], outcome = Resolved\<rparr>)"
    if "getGeoJson read_result = Inr loaded" for loaded
  proof -
    have "snd (classify_features (map type []) [] (features loaded)) =
            Inr (map Feature (features loaded))"
      using cl[of "features loaded"] by simp
    from shapeToGeojson_loaded[OF that defs this, of toWGS fs_ok] cl[of "features loaded"]
    show ?thesis
      by (simp add: assms(2) Let_def new_Set_def)
  qed
  have only: "\<forall>p\<in>fst ` set (written run). p = outputFileName opts @ ''.geojson''"
  proof (cases read_result)
    case (Inl err)
    then show ?thesis
      by (simp add: assms(2) shapeToGeojson_not_loaded)
  next
    case (Inr g)
    then obtain loaded where "getGeoJson read_result = Inr loaded"
      by (simp add: getGeoJson_def)
    from loaded_run[OF this] show ?thesis
      by (simp split: if_splits)
  qed
  from cl only loaded_run show ?thesis
    by simp
qed

theorem no_definitions_witness:
  "(typesDefinitions (example_options\<lparr>typesDefinitions := None\<rparr>) = None \<or>
    typesDefinitions (example_options\<lparr>typesDefinitions := None\<rparr>) = Some []) \<and>
   getGeoJson (Inr example_collection) =
     Inr (example_collection\<lparr>features := map cleanup (features example_collection)\<rparr>) \<and>
   every_write_ok (outputFileName (example_options\<lparr>typesDefinitions := None\<rparr>) @ ''.geojson'') \<and>
   map fst (written (shapeToGeojson example_toWGS (Inr example_collection) every_write_ok
                       (example_options\<lparr>typesDefinitions := None\<rparr>))) = [''out.geojson''] \<and>
   events (shapeToGeojson example_toWGS (Inr example_collection) every_write_ok
             (example_options\<lparr>typesDefinitions := None\<rparr>)) =
     [Start, Text (Reading_from ''in''), Succeed (Geo_data_wrote ''out'')]"
proof -
  have a: "typesDefinitions (example_options\<lparr>typesDefinitions := None\<rparr>) = None \<or>
           typesDefinitions (example_options\<lparr>typesDefinitions := None\<rparr>) = Some []"
    by simp
  have h: "getGeoJson (Inr example_collection) =
             Inr (example_collection\<lparr>features := map cleanup (features example_collection)\<rparr>)"
    by (simp add: getGeoJson_def)
  have w: "every_write_ok (outputFileName (example_options\<lparr>typesDefinitions := None\<rparr>) @ ''.geojson'')"
    by (simp add: every_write_ok_def)
  from no_definitions[where toWGS = example_toWGS and read_result = "Inr example_collection"
      and fs_ok = every_write_ok, OF a refl] h w
  show ?thesis
    by (simp add: example_options_def)
qed


section \<open>The designation files partition the designated features\<close>

lemma map_of_set_prop: "map_of (set_prop ps k v) k = Some v"
  by (induction ps) auto

lemma has_prop_map_of: "has_prop ps k = (map_of ps k \<noteq> None)"
  by (simp add: has_prop_def map_of_eq_None_iff)

text \<open>
  A feature that came without a \<open>designation\<close> leaves the classifier with the
  designation of a definition, or without one.
\<close>

lemma classified_designation:
  assumes "snd (classify (map type defs) defs f) = Inr (Feature c)"
    and "\<not> has_prop (properties f) ''designation''"
  shows "(\<exists>d\<in>designation ` set defs. map_of (properties c) ''designation'' = Some (JStr d)) \<or>
         \<not> has_prop (properties c) ''designation''"
proof (cases "defs \<noteq> [] \<and> truthy (get_prop (properties f) ''Typ'')")
  case False
  with assms have "c = f"
    by (auto simp: classify_derived Let_def split: if_splits)
  with assms(2) show ?thesis
    by simp
next
  case True
  show ?thesis
  proof (cases "find (\<lambda>t. type t = get_prop (properties f) ''Typ'') defs")
    case None
    with True assms show ?thesis
      by (auto simp: classify_derived Let_def)
  next
    case (Some td)
    then have "td \<in> set defs"
      using find_first[of _ defs td] by blast
    moreover from True Some assms(1)
    have "map_of (properties c) ''designation'' = Some (JStr (designation td))"
      by (auto simp: classify_derived Let_def map_of_set_prop)
    ultimately show ?thesis
      by blast
  qed
qed

lemma json_designation:
  assumes "(\<exists>d\<in>D. map_of ps ''designation'' = Some (JStr d)) \<or> \<not> has_prop ps ''designation''"
  shows "has_prop (json_props ps) ''designation'' =
           (\<exists>d\<in>D. get_prop (json_props ps) ''designation'' = JStr d)"
  using assms
proof
  assume "\<exists>d\<in>D. map_of ps ''designation'' = Some (JStr d)"
  then obtain d where d: "d \<in> D" "map_of ps ''designation'' = Some (JStr d)"
    by blast
  from map_of_json_props[OF d(2)] have "map_of (json_props ps) ''designation'' = Some (JStr d)"
    by (simp add: json_value_def)
  with d(1) show ?thesis
    by (auto simp: has_prop_map_of get_prop_def)
next
  assume no: "\<not> has_prop ps ''designation''"
  then have "\<not> has_prop (json_props ps) ''designation''"
    using keys_json_props[of ps] by (auto simp: has_prop_def)
  then show ?thesis
    by (simp add: get_prop_absent)
qed

text \<open>The files that the run on the first example writes.\<close>

lemma example_run_written:
  "written (shapeToGeojson example_toWGS (Inr example_collection) every_write_ok
              example_options) =
     [(''out_X.geojson'',
       \<lparr>coll_type = ''FeatureCollection'',
        features =
          [\<lparr>geometry = \<lparr>coordinates = [[JNum 1000, JNum 10000]]\<rparr>,
            properties = [(''LAGE'', JStr ''Koenigstrasse''), (''Typ'', JStr ''A''),
                          (''designation'', JStr ''X'')]\<rparr>],
        bbox = [JNum 10000, JNum 1000, JNum 10200, JNum 1200]\<rparr>),
      (''out_Y.geojson'',
       \<lparr>coll_type = ''FeatureCollection'',
        features =
          [\<lparr>geometry = \<lparr>coordinates = [[JNum 1100, JNum 10100]]\<rparr>,
            properties = [(''LAGE'', JStr ''UNKNOWN''), (''Typ'', JStr ''B''),
                          (''designation'', JStr ''Y'')]\<rparr>],
        bbox = [JNum 10000, JNum 1000, JNum 10200, JNum 1200]\<rparr>),
      (''out.geojson'',
       \<lparr>coll_type = ''FeatureCollection'',
        features =
          [\<lparr>geometry = \<lparr>coordinates = [[JNum 1000, JNum 10000]]\<rparr>,
            properties = [(''LAGE'', JStr ''Koenigstrasse''), (''Typ'', JStr ''A''),
                          (''designation'', JStr ''X'')]\<rparr>,
           \<lparr>geometry = \<lparr>coordinates = [[JNum 1100, JNum 10100]]\<rparr>,
            properties = [(''LAGE'', JStr ''UNKNOWN''), (''Typ'', JStr ''B''),
                          (''designation'', JStr ''Y'')]\<rparr>,
           \<lparr>geometry = \<lparr>coordinates = [[JNum 1200, JNum 10200]]\<rparr>,
            properties = [(''LAGE'', JStr ''Flussweg''), (''Typ'', JStr ''UNKNOWN'')]\<rparr>],
        bbox = [JNum 10000, JNum 1000, JNum 10200, JNum 1200]\<rparr>)]"
  by (simp add: shapeToGeojson_def example_collection_def example_options_def
      example_definitions_def every_write_ok_def getGeoJson_def cleanup_def get_prop_def
      js_or_def classify_def js_includes_def strict_eq_def
      reproject_feature_def new_Set_def set_add_def saveGeoJson_def Let_def
      stringify_def json_feature_def json_props_def json_value_def reproject_geometry_def
      reproject_coordinates_def reproject_bbox_def js_index_def example_toWGS_def)

text \<open>
  Claim C6, as the code has it. In a run that reports success, the files written are
  that of the whole collection, which has every feature read, and one for each
  designation of the definitions, which has the features of the whole collection with
  that designation. The features in the designation files together are the features of
  the whole collection's file whose \<open>designation\<close> is a designation of the definitions;
  these are all its features with a \<open>designation\<close> property if no feature was read
  with one. No feature is in the files of two designations.
\<close>

theorem partition_completeness:
  assumes "defs = (case typesDefinitions opts of None \<Rightarrow> [] | Some ds \<Rightarrow> ds)"
    and "run = shapeToGeojson toWGS read_result fs_ok opts"
    and "Succeed (Geo_data_wrote (outputFileName opts)) \<in> set (events run)"
  shows "\<exists>g whole part.
           read_result = Inr g \<and>
           map_of (written run) (outputFileName opts @ ''.geojson'') = Some whole \<and>
           (\<forall>d\<in>designation ` set defs.
              map_of (written run) (outputFileName opts @ ''_'' @ d @ ''.geojson'') = Some (part d)) \<and>
           fst ` set (written run) =
             insert (outputFileName opts @ ''.geojson'')
               ((\<lambda>d. outputFileName opts @ ''_'' @ d @ ''.geojson'') ` designation ` set defs) \<and>
           length (features whole) = length (features g) \<and>
           (\<forall>d\<in>designation ` set defs.
              features (part d) =
                filter (\<lambda>f. get_prop (properties f) ''designation'' = JStr d) (features whole)) \<and>
           (\<Union>d\<in>designation ` set defs. set (features (part d))) =
             {f \<in> set (features whole).
                \<exists>d\<in>designation ` set defs. get_prop (properties f) ''designation'' = JStr d} \<and>
           ((\<forall>f\<in>set (features g). \<not> has_prop (properties f) ''designation'') \<longrightarrow>
              (\<Union>d\<in>designation ` set defs. set (features (part d))) =
                {f \<in> set (features whole). has_prop (properties f) ''designation''}) \<and>
           (\<forall>d\<in>designation ` set defs. \<forall>d'\<in>designation ` set defs.
              d \<noteq> d' \<longrightarrow> set (features (part d)) \<inter> set (features (part d')) = {})"
proof -
  let ?D = "designation ` set defs"
  let ?ds = "new_Set (map designation defs)"
  let ?name = "outputFileName opts"
  from successful_run[OF assms(3)[unfolded assms(2)] assms(1)]
  obtain loaded cs where loaded: "getGeoJson read_result = Inr loaded"
    and len: "length cs = length (features loaded)"
    and each: "\<forall>i<length cs. snd (classify (map type defs) defs (features loaded ! i)) =
                                  Inr (Feature (cs ! i)) \<and>
                                truthy (get_prop (properties (features loaded ! i)) ''Typ'')"
    and w: "written run =
             (let whole = stringify (loaded\<lparr>features := map (reproject_geometry toWGS) cs,
                                            bbox := reproject_bbox toWGS (bbox loaded)\<rparr>)
              in map (\<lambda>d. (?name @ ''_'' @ d @ ''.geojson'',
                        \<lparr>coll_type = coll_type whole,
                         features = filter (\<lambda>f. get_prop (properties f) ''designation'' = JStr d)
                                      (features whole),
                         bbox = bbox whole\<rparr>)) ?ds @
                 [(?name @ ''.geojson'', whole)])"
    unfolding assms(2) by blast
  from loaded obtain g where g: "read_result = Inr g"
    and l: "loaded = g\<lparr>features := map cleanup (features g)\<rparr>"
    using getGeoJson_Inr by blast
  define whole where
    "whole = stringify (loaded\<lparr>features := map (reproject_geometry toWGS) cs,
                               bbox := reproject_bbox toWGS (bbox loaded)\<rparr>)"
  define part where
    "part = (\<lambda>d. \<lparr>coll_type = coll_type whole,
                  features = filter (\<lambda>f. get_prop (properties f) ''designation'' = JStr d)
                               (features whole),
                  bbox = bbox whole\<rparr>)"
  have w': "written run =
              map (\<lambda>d. (?name @ ''_'' @ d @ ''.geojson'', part d)) ?ds @ [(?name @ ''.geojson'', whole)]"
    by (simp add: w whole_def part_def Let_def)
  have ds: "set ?ds = ?D"
    by (simp add: set_new_Set)
  have 1: "map_of (written run) (?name @ ''.geojson'') = Some whole"
    unfolding w' by (rule map_of_combined_path)
  have 2: "\<forall>d\<in>?D. map_of (written run) (?name @ ''_'' @ d @ ''.geojson'') = Some (part d)"
    unfolding w' using map_of_designation_path[of _ ?ds ?name part] ds by blast
  have 3: "fst ` set (written run) =
             insert (?name @ ''.geojson'') ((\<lambda>d. ?name @ ''_'' @ d @ ''.geojson'') ` ?D)"
    unfolding w' ds[symmetric] by (simp add: image_image)
  have 4: "length (features whole) = length (features g)"
    using len l by (simp add: whole_def stringify_def)
  have 5: "\<forall>d\<in>?D. features (part d) =
             filter (\<lambda>f. get_prop (properties f) ''designation'' = JStr d) (features whole)"
    by (simp add: part_def)
  have 6: "(\<Union>d\<in>?D. set (features (part d))) =
             {f \<in> set (features whole). \<exists>d\<in>?D. get_prop (properties f) ''designation'' = JStr d}"
    by (auto simp: part_def)
  have inv: "has_prop (properties x) ''designation'' =
               (\<exists>d\<in>?D. get_prop (properties x) ''designation'' = JStr d)"
    if none: "\<forall>f\<in>set (features g). \<not> has_prop (properties f) ''designation''"
      and x: "x \<in> set (features whole)" for x
  proof -
    from x obtain i where i: "i < length cs"
      and xi: "x = json_feature (reproject_geometry toWGS (cs ! i))"
      by (auto simp: whole_def stringify_def in_set_conv_nth)
    from i each have c: "snd (classify (map type defs) defs (features loaded ! i)) =
                           Inr (Feature (cs ! i))"
      by simp
    from i len l have li: "features loaded ! i = cleanup (features g ! i)"
      and gi: "features g ! i \<in> set (features g)"
      by simp_all
    with none have "\<not> has_prop (properties (features loaded ! i)) ''designation''"
      by (simp add: cleanup_has)
    from classified_designation[OF c this]
    have "(\<exists>d\<in>?D. map_of (properties (cs ! i)) ''designation'' = Some (JStr d)) \<or>
          \<not> has_prop (properties (cs ! i)) ''designation''" .
    from json_designation[OF this] show ?thesis
      by (simp add: xi json_feature_def reproject_geometry_properties)
  qed
  have 7: "(\<forall>f\<in>set (features g). \<not> has_prop (properties f) ''designation'') \<longrightarrow>
             (\<Union>d\<in>?D. set (features (part d))) =
               {f \<in> set (features whole). has_prop (properties f) ''designation''}"
    unfolding 6 using inv by blast
  have 8: "\<forall>d\<in>?D. \<forall>d'\<in>?D. d \<noteq> d' \<longrightarrow> set (features (part d)) \<inter> set (features (part d')) = {}"
    by (auto simp: part_def)
  show ?thesis
    by (intro exI[of _ g] exI[of _ whole] exI[of _ part] conjI g 1 2 3 4 5 6 7 8)
qed


theorem partition_completeness_witness:
  "example_definitions =
     (case typesDefinitions example_options of None \<Rightarrow> [] | Some ds \<Rightarrow> ds) \<and>
   Succeed (Geo_data_wrote (outputFileName example_options))
     \<in> set (events (shapeToGeojson example_toWGS (Inr example_collection) every_write_ok
                      example_options)) \<and>
   \<not> has_prop (properties (features example_collection ! 0)) ''designation'' \<and>
   \<not> has_prop (properties (features example_collection ! 1)) ''designation'' \<and>
   \<not> has_prop (properties (features example_collection ! 2)) ''designation'' \<and>
   designation ` set example_definitions = {''X'', ''Y''} \<and>
   (\<exists>whole part.
      map_of (written (shapeToGeojson example_toWGS (Inr example_collection) every_write_ok
                         example_options)) ''out.geojson'' = Some whole \<and>
      map_of (written (shapeToGeojson example_toWGS (Inr example_collection) every_write_ok
                         example_options)) ''out_X.geojson'' = Some (part ''X'') \<and>
      map_of (written (shapeToGeojson example_toWGS (Inr example_collection) every_write_ok
                         example_options)) ''out_Y.geojson'' = Some (part ''Y'') \<and>
      map (\<lambda>f. get_prop (properties f) ''LAGE'') (features whole) =
        [JStr ''Koenigstrasse'', JStr ''UNKNOWN'', JStr ''Flussweg''] \<and>
      map (\<lambda>f. get_prop (properties f) ''LAGE'') (features (part ''X'')) = [JStr ''Koenigstrasse''] \<and>
      map (\<lambda>f. get_prop (properties f) ''LAGE'') (features (part ''Y'')) = [JStr ''UNKNOWN''] \<and>
      set (features (part ''X'')) \<union> set (features (part ''Y'')) =
        {f \<in> set (features whole). has_prop (properties f) ''designation''} \<and>
      set (features (part ''X'')) \<inter> set (features (part ''Y'')) = {})"
proof -
  let ?run = "shapeToGeojson example_toWGS (Inr example_collection) every_write_ok example_options"
  have d: "example_definitions =
             (case typesDefinitions example_options of None \<Rightarrow> [] | Some ds \<Rightarrow> ds)"
    by (simp add: example_options_def)
  have s: "Succeed (Geo_data_wrote (outputFileName example_options)) \<in> set (events ?run)"
    by (simp add: shapeToGeojson_def example_collection_def example_options_def
        example_definitions_def every_write_ok_def getGeoJson_def cleanup_def get_prop_def
        js_or_def classify_def js_includes_def strict_eq_def
        reproject_feature_def new_Set_def set_add_def saveGeoJson_def Let_def)
  have n: "\<not> has_prop (properties (features example_collection ! 0)) ''designation''"
    "\<not> has_prop (properties (features example_collection ! 1)) ''designation''"
    "\<not> has_prop (properties (features example_collection ! 2)) ''designation''"
    by (simp_all add: example_collection_def has_prop_def)
  have a: "\<forall>f\<in>set (features example_collection). \<not> has_prop (properties f) ''designation''"
    by (simp add: example_collection_def has_prop_def)
  have D: "designation ` set example_definitions = {''X'', ''Y''}"
    by (simp add: example_definitions_def)
  have o: "outputFileName example_options = ''out''"
    by (simp add: example_options_def)
  note pc = partition_completeness[OF d refl s, unfolded D o]
  from pc obtain g whole part where
    g: "Inr example_collection = (Inr g :: string + geojson)"
    and w: "map_of (written ?run) (''out'' @ ''.geojson'') = Some whole"
    and p: "\<forall>d\<in>{''X'', ''Y''}. map_of (written ?run) (''out'' @ ''_'' @ d @ ''.geojson'') = Some (part d)"
    and u: "(\<forall>f\<in>set (features g). \<not> has_prop (properties f) ''designation'') \<longrightarrow>
              (\<Union>d\<in>{''X'', ''Y''}. set (features (part d))) =
                {f \<in> set (features whole). has_prop (properties f) ''designation''}"
    and i: "\<forall>d\<in>{''X'', ''Y''}. \<forall>d'\<in>{''X'', ''Y''}.
              d \<noteq> d' \<longrightarrow> set (features (part d)) \<inter> set (features (part d')) = {}"
    by (elim exE conjE) (rule that; assumption)
  from g have g': "g = example_collection"
    by simp
  from w have w': "map_of (written ?run) ''out.geojson'' = Some whole"
    by simp
  from p have x: "map_of (written ?run) ''out_X.geojson'' = Some (part ''X'')"
    and y: "map_of (written ?run) ''out_Y.geojson'' = Some (part ''Y'')"
    by simp_all
  note ew = w'[unfolded example_run_written, simplified, symmetric]
    and ex = x[unfolded example_run_written, simplified, symmetric]
    and ey = y[unfolded example_run_written, simplified, symmetric]
  have fw: "map (\<lambda>f. get_prop (properties f) ''LAGE'') (features whole) =
        [JStr ''Koenigstrasse'', JStr ''UNKNOWN'', JStr ''Flussweg'']"
    by (simp add: ew get_prop_def)
  have fx: "map (\<lambda>f. get_prop (properties f) ''LAGE'') (features (part ''X'')) =
        [JStr ''Koenigstrasse'']"
    by (simp add: ex get_prop_def)
  have fy: "map (\<lambda>f. get_prop (properties f) ''LAGE'') (features (part ''Y'')) =
        [JStr ''UNKNOWN'']"
    by (simp add: ey get_prop_def)
  from a have "\<forall>f\<in>set (features g). \<not> has_prop (properties f) ''designation''"
    unfolding g' .
  with u have U: "(\<Union>d\<in>{''X'', ''Y''}. set (features (part d))) =
                {f \<in> set (features whole). has_prop (properties f) ''designation''}"
    by (rule mp)
  have e: "(\<Union>d\<in>{''X'', ''Y''}. set (features (part d))) =
             set (features (part ''X'')) \<union> set (features (part ''Y''))"
    by simp
  have un: "set (features (part ''X'')) \<union> set (features (part ''Y'')) =
        {f \<in> set (features whole). has_prop (properties f) ''designation''}"
    using U unfolding e .
  have it: "set (features (part ''X'')) \<inter> set (features (part ''Y'')) = {}"
    using i[rule_format, of "''X''" "''Y''"] by simp
  have "\<exists>whole part.
      map_of (written ?run) ''out.geojson'' = Some whole \<and>
      map_of (written ?run) ''out_X.geojson'' = Some (part ''X'') \<and>
      map_of (written ?run) ''out_Y.geojson'' = Some (part ''Y'') \<and>
      map (\<lambda>f. get_prop (properties f) ''LAGE'') (features whole) =
        [JStr ''Koenigstrasse'', JStr ''UNKNOWN'', JStr ''Flussweg''] \<and>
      map (\<lambda>f. get_prop (properties f) ''LAGE'') (features (part ''X'')) = [JStr ''Koenigstrasse''] \<and>
      map (\<lambda>f. get_prop (properties f) ''LAGE'') (features (part ''Y'')) = [JStr ''UNKNOWN''] \<and>
      set (features (part ''X'')) \<union> set (features (part ''Y'')) =
        {f \<in> set (features whole). has_prop (properties f) ''designation''} \<and>
      set (features (part ''X'')) \<inter> set (features (part ''Y'')) = {}"
    by (intro exI[of _ whole] exI[of _ part] conjI w' x y fw fx fy un it)
  then show ?thesis
    by (intro conjI d s n D)
qed

text \<open>
  The second feature of the second example was read with the designation \<open>W\<close> and the
  type code \<open>Q\<close>. The run reports success; the feature is in the file of the whole
  collection with its designation, and in the file of no designation.
\<close>

theorem partition_completeness_counterexample:
  "Succeed (Geo_data_wrote (outputFileName example_options))
     \<in> set (events (shapeToGeojson example_toWGS (Inr example_designated) every_write_ok
                      example_options)) \<and>
   written (shapeToGeojson example_toWGS (Inr example_designated) every_write_ok
              example_options) =
     [(''out_X.geojson'',
       \<lparr>coll_type = ''FeatureCollection'',
        features =
          [\<lparr>geometry = \<lparr>coordinates = [[JNum 1000, JNum 10000]]\<rparr>,
            properties = [(''LAGE'', JStr ''Koenigstrasse''), (''Typ'', JStr ''A''),
                          (''designation'', JStr ''X'')]\<rparr>],
        bbox = [JNum 10000, JNum 1000, JNum 10300, JNum 1300]\<rparr>),
      (''out_Y.geojson'',
       \<lparr>coll_type = ''FeatureCollection'', features = [],
        bbox = [JNum 10000, JNum 1000, JNum 10300, JNum 1300]\<rparr>),
      (''out.geojson'',
       \<lparr>coll_type = ''FeatureCollection'',
        features =
          [\<lparr>geometry = \<lparr>coordinates = [[JNum 1000, JNum 10000]]\<rparr>,
            properties = [(''LAGE'', JStr ''Koenigstrasse''), (''Typ'', JStr ''A''),
                          (''designation'', JStr ''X'')]\<rparr>,
           \<lparr>geometry = \<lparr>coordinates = [[JNum 1300, JNum 10300]]\<rparr>,
            properties = [(''LAGE'', JStr ''Uferweg''), (''Typ'', JStr ''Q''),
                          (''designation'', JStr ''W'')]\<rparr>],
        bbox = [JNum 10000, JNum 1000, JNum 10300, JNum 1300]\<rparr>)] \<and>
   has_prop [(''LAGE'', JStr ''Uferweg''), (''Typ'', JStr ''Q''), (''designation'', JStr ''W'')]
     ''designation''"
  by (simp add: shapeToGeojson_def example_designated_def example_options_def
      example_definitions_def every_write_ok_def getGeoJson_def cleanup_def get_prop_def
      js_or_def classify_def js_includes_def strict_eq_def
      reproject_feature_def new_Set_def set_add_def saveGeoJson_def Let_def
      stringify_def json_feature_def json_props_def json_value_def reproject_geometry_def
      reproject_coordinates_def reproject_bbox_def js_index_def example_toWGS_def has_prop_def)

section \<open>The bounding box\<close>

text \<open>
  Claim C1. A coordinate array of a feature becomes longitude, latitude. Each corner of
  the bounding box becomes latitude, longitude, the other way round: the converted box
  is in the order of the claim only where latitude and longitude of both corners
  coincide. The last conjunct is the box in the file of the whole collection that the
  run on the example writes.
\<close>

theorem bbox_latitude_first:
  "reproject_coordinates toWGS [x, y] = [longitude (toWGS x y), latitude (toWGS x y)] \<and>
   reproject_bbox toWGS [x0, y0, x1, y1] =
     [latitude (toWGS x0 y0), longitude (toWGS x0 y0),
      latitude (toWGS x1 y1), longitude (toWGS x1 y1)] \<and>
   (reproject_bbox toWGS [x0, y0, x1, y1] =
      [longitude (toWGS x0 y0), latitude (toWGS x0 y0),
       longitude (toWGS x1 y1), latitude (toWGS x1 y1)]) =
     (latitude (toWGS x0 y0) = longitude (toWGS x0 y0) \<and>
      latitude (toWGS x1 y1) = longitude (toWGS x1 y1)) \<and>
   map (\<lambda>p. (fst p, bbox (snd p)))
     (written (shapeToGeojson toWGS (Inr example_collection) every_write_ok example_options)) =
     [(''out_X.geojson'', map json_value
         [latitude (toWGS (JNum 4425000) (JNum 5480000)),
          longitude (toWGS (JNum 4425000) (JNum 5480000)),
          latitude (toWGS (JNum 4425200) (JNum 5480200)),
          longitude (toWGS (JNum 4425200) (JNum 5480200))]),
      (''out_Y.geojson'', map json_value
         [latitude (toWGS (JNum 4425000) (JNum 5480000)),
          longitude (toWGS (JNum 4425000) (JNum 5480000)),
          latitude (toWGS (JNum 4425200) (JNum 5480200)),
          longitude (toWGS (JNum 4425200) (JNum 5480200))]),
      (''out.geojson'', map json_value
         [latitude (toWGS (JNum 4425000) (JNum 5480000)),
          longitude (toWGS (JNum 4425000) (JNum 5480000)),
          latitude (toWGS (JNum 4425200) (JNum 5480200)),
          longitude (toWGS (JNum 4425200) (JNum 5480200))])]"
proof -
  have "map (\<lambda>p. (fst p, bbox (snd p)))
     (written (shapeToGeojson toWGS (Inr example_collection) every_write_ok example_options)) =
     [(''out_X.geojson'', map json_value
         [latitude (toWGS (JNum 4425000) (JNum 5480000)),
          longitude (toWGS (JNum 4425000) (JNum 5480000)),
          latitude (toWGS (JNum 4425200) (JNum 5480200)),
          longitude (toWGS (JNum 4425200) (JNum 5480200))]),
      (''out_Y.geojson'', map json_value
         [latitude (toWGS (JNum 4425000) (JNum 5480000)),
          longitude (toWGS (JNum 4425000) (JNum 5480000)),
          latitude (toWGS (JNum 4425200) (JNum 5480200)),
          longitude (toWGS (JNum 4425200) (JNum 5480200))]),
      (''out.geojson'', map json_value
         [latitude (toWGS (JNum 4425000) (JNum 5480000)),
          longitude (toWGS (JNum 4425000) (JNum 5480000)),
          latitude (toWGS (JNum 4425200) (JNum 5480200)),
          longitude (toWGS (JNum 4425200) (JNum 5480200))])]"
    by (simp add: shapeToGeojson_def example_collection_def example_options_def
        example_definitions_def every_write_ok_def getGeoJson_def cleanup_def get_prop_def
        js_or_def classify_def js_includes_def strict_eq_def
        reproject_feature_def new_Set_def set_add_def saveGeoJson_def Let_def
        reproject_bbox_def js_index_def stringify_def)
  then show ?thesis
    by (auto simp: reproject_coordinates_def reproject_bbox_def js_index_def Let_def)
qed

section \<open>The branches of lines 90 and 96\<close>

text \<open>
  The branch of line 90, for lists \<open>TYPES\<close> and \<open>typesDefinitions\<close> that disagree, which
  line 66 never produces: the callback reports the failure and returns; the pass goes on
  with the features that follow, and the reprojection throws at the spinner.
\<close>

lemma not_found_branch:
  assumes "TYPES \<noteq> []" and "truthy (get_prop (properties f) ''Typ'')"
    and "js_includes TYPES (get_prop (properties f) ''Typ'')"
    and "find (\<lambda>t. strict_eq (type t) (get_prop (properties f) ''Typ'')) defs = None"
  shows "classify TYPES defs f =
           ([Text (Valid_type_found (get_prop (properties f) ''Typ'')),
             Fail (Type_definition_not_found (get_prop (properties f) ''Typ''))], Inr Spinner)"
    and "snd (classify_features TYPES defs fs) = Inr ss \<Longrightarrow>
           snd (classify_features TYPES defs (f # fs)) = Inr (Spinner # ss)"
    and "reproject_features toWGS (Spinner # ss) = Inl (TypeError ''coordinates'')"
  using assms
  by (auto simp: classify_def reproject_feature_def Let_def split: prod.splits sum.splits)

text \<open>
  The branch of line 96, for a feature whose \<open>Typ\<close> is falsy, which the loader never
  leaves: the call throws, and the pass ends there.
\<close>

lemma invalid_type_branch:
  assumes "TYPES \<noteq> []" and "\<not> truthy (get_prop (properties f) ''Typ'')"
  shows "classify TYPES defs f = ([], Inl (TypeError ''spinner.error is not a function''))"
    and "classify_features TYPES defs (f # fs) =
           ([], Inl (TypeError ''spinner.error is not a function''))"
  using assms by (simp_all add: classify_def Let_def)

section \<open>A failing write\<close>

text \<open>
  A run whose input was read and in which the write of some designation's file fails
  is rejected with the \<open>ReferenceError\<close> of the \<open>catch\<close> block; it reports no failure.
\<close>

lemma designation_write_fails:
  assumes "getGeoJson read_result = Inr loaded"
    and "defs = (case typesDefinitions opts of None \<Rightarrow> [] | Some ds \<Rightarrow> ds)"
    and "d \<in> designation ` set defs"
    and "\<not> fs_ok (outputFileName opts @ ''_'' @ d @ ''.geojson'')"
  shows "outcome (shapeToGeojson toWGS read_result fs_ok opts) =
           Rejected (ReferenceError ''outputFile'')"
    and "Fail m \<notin> set (events (shapeToGeojson toWGS read_result fs_ok opts))"
    and "Succeed m \<notin> set (events (shapeToGeojson toWGS read_result fs_ok opts))"
proof -
  let ?ds = "new_Set (map designation defs)"
  let ?ok = "takeWhile (\<lambda>d. fs_ok (outputFileName opts @ ''_'' @ d @ ''.geojson'')) ?ds"
  obtain cs where cs:
    "snd (classify_features (map type defs) defs (features loaded)) = Inr (map Feature cs)"
    using loaded_classified[OF assms(1)] by blast
  note run = shapeToGeojson_loaded[OF assms(1,2) cs, of toWGS fs_ok]
  have len: "length ?ok \<noteq> length ?ds"
  proof
    assume "length ?ok = length ?ds"
    then have "?ok = ?ds"
      by (rule takeWhile_all)
    then have "\<forall>x\<in>set ?ds. fs_ok (outputFileName opts @ ''_'' @ x @ ''.geojson'')"
      by (simp only: takeWhile_eq_all_conv)
    with assms(3,4) show False
      by (auto simp: set_new_Set)
  qed
  have no: "Fail m \<notin> set (fst (classify_features (map type defs) defs (features loaded)))"
    "Succeed m \<notin> set (fst (classify_features (map type defs) defs (features loaded)))"
    using classify_features_events[of "Fail m" "map type defs" defs "features loaded"]
      classify_features_events[of "Succeed m" "map type defs" defs "features loaded"]
      classify_events[of "Fail m" defs] classify_events[of "Succeed m" defs]
    by auto
  from run len show "outcome (shapeToGeojson toWGS read_result fs_ok opts) =
           Rejected (ReferenceError ''outputFile'')"
    by (simp add: Let_def)
  from run len no show "Fail m \<notin> set (events (shapeToGeojson toWGS read_result fs_ok opts))"
    by (auto simp: Let_def)
  from run len no show "Succeed m \<notin> set (events (shapeToGeojson toWGS read_result fs_ok opts))"
    by (auto simp: Let_def)
qed

text \<open>
  Claim C9. On the example, with the write of the second designation's file failing: the
  remaining writes do not happen and the first file stays, but the run reports no failure
  and names no path; it is rejected with the \<open>ReferenceError\<close>.
\<close>

theorem designation_write_failure:
  "outcome (shapeToGeojson toWGS (Inr example_collection) only_X_write_ok example_options) =
     Rejected (ReferenceError ''outputFile'') \<and>
   events (shapeToGeojson toWGS (Inr example_collection) only_X_write_ok example_options) =
     [Start, Text (Reading_from ''in''),
      Text (Valid_type_found (JStr ''A'')),
      Text (Valid_type_found (JStr ''B'')),
      Warn (Unknown_type_found (JStr ''UNKNOWN'')),
      Text (Processing_designation ''X''), Text (Successfully_wrote ''out_X''),
      Text (Processing_designation ''Y'')] \<and>
   map fst (written (shapeToGeojson toWGS (Inr example_collection) only_X_write_ok example_options)) =
     [''out_X.geojson'']"
  by (simp add: shapeToGeojson_def example_collection_def example_options_def
      example_definitions_def only_X_write_ok_def getGeoJson_def cleanup_def get_prop_def
      js_or_def classify_def js_includes_def strict_eq_def
      reproject_feature_def new_Set_def set_add_def saveGeoJson_def Let_def)


end
